theory Spec2Isabelle
  imports Main "HOL-Library.Word"
begin

unbundle bit_operations_syntax

section \<open>Data model of tqftpserv.c\<close>

text \<open>
  Integer widths are those of the LP64 targets the server is built for: \<open>size_t\<close>,
  \<open>ssize_t\<close> and \<open>off_t\<close> have 64 bits, \<open>unsigned int\<close> has 32 and \<open>uint16_t\<close> has 16.
  Unsigned arithmetic is word arithmetic and wraps. \<open>char\<close> is read as unsigned (as on
  ARM); the concrete inputs used below only hold bytes under 0x80, where a signed
  \<open>char\<close> gives the same values. File descriptors and return codes are \<open>int\<close>.
\<close>

type_synonym byte = "8 word"
type_synonym size_t = "64 word"

definition OP_RRQ :: int where "OP_RRQ = 1"
definition OP_WRQ :: int where "OP_WRQ = 2"
definition OP_DATA :: int where "OP_DATA = 3"
definition OP_ACK :: int where "OP_ACK = 4"
definition OP_ERROR :: int where "OP_ERROR = 5"
definition OP_OACK :: int where "OP_OACK = 6"
definition ERROR_END_OF_TRANSFER :: int where "ERROR_END_OF_TRANSFER = 9"
definition EINVAL :: int where "EINVAL = 22"

record sockaddr_qrtr =
  sq_node :: "32 word"
  sq_port :: "32 word"

text \<open>\<open>struct tftp_client\<close>. The list node is the position in a registry below.\<close>

record tftp_client =
  sq :: sockaddr_qrtr
  sock :: int
  fd :: int
  block :: size_t
  blksize :: size_t
  rsize :: size_t
  wsize :: size_t
  timeoutms :: "32 word"
  seek :: size_t

text \<open>
  An open file description: the bytes of the file, the file position that
  \<open>write(2)\<close> advances (\<open>pread(2)\<close> ignores it), and the access mode it was
  opened with.
\<close>

record ofile =
  bytes :: "byte list"
  pos :: nat
  readable :: bool
  writable :: bool

text \<open>
  The state the server works on: the two registries (\<open>readers\<close>, \<open>writers\<close>), the
  table of open files, the set of open sockets, and the datagrams handed to
  \<open>send(2)\<close> so far, oldest first, each with the socket it went out on.
\<close>

record state =
  readers :: "tftp_client list"
  writers :: "tftp_client list"
  files :: "int \<Rightarrow> ofile option"
  socks :: "int set"
  sent :: "(int \<times> byte list) list"

text \<open>
  What one \<open>recvfrom(2)\<close> call hands back: its return value, the receive array after
  the call, and the source address. Cells of the array past the received length keep
  what the array held before the call.
\<close>

record recvd =
  len :: int
  buf :: "nat \<Rightarrow> byte"
  src :: sockaddr_qrtr

definition recvfrom :: "nat \<Rightarrow> (nat \<Rightarrow> byte) \<Rightarrow> byte list \<Rightarrow> sockaddr_qrtr \<Rightarrow> recvd" where
  "recvfrom cap arr dgram from =
     \<lparr> len = int (min cap (length dgram)),
       buf = (\<lambda>i. if i < min cap (length dgram) then dgram ! i else arr i),
       src = from \<rparr>"

section \<open>System calls\<close>

text \<open>
  \<open>pread\<close>: \<open>None\<close> is a negative return (descriptor not open or not open for
  reading, or an offset that is negative as \<open>off_t\<close>); otherwise the bytes read, fewer
  than \<open>count\<close> at end of file.
\<close>

definition pread :: "state \<Rightarrow> int \<Rightarrow> size_t \<Rightarrow> size_t \<Rightarrow> byte list option" where
  "pread st f count offset =
     (case files st f of
        None \<Rightarrow> None
      | Some fl \<Rightarrow>
          if \<not> readable fl then None
          else if sint offset < 0 then None
          else Some (take (unat count) (drop (unat offset) (bytes fl))))"

text \<open>
  \<open>write\<close> of a whole buffer at the file position (the files are opened without
  \<open>O_APPEND\<close> and without \<open>O_TRUNC\<close>): \<open>-1\<close> when the descriptor is not open for
  writing, else the number of bytes written.
\<close>

definition write_fd :: "state \<Rightarrow> int \<Rightarrow> byte list \<Rightarrow> int \<times> state" where
  "write_fd st f dat =
     (case files st f of
        None \<Rightarrow> (- 1, st)
      | Some fl \<Rightarrow>
          if \<not> writable fl then (- 1, st)
          else
            (int (length dat),
             st\<lparr>files := (files st)(f \<mapsto>
                  fl\<lparr>bytes := take (pos fl) (bytes fl) @ replicate (pos fl - length (bytes fl)) 0
                                  @ dat @ drop (pos fl + length dat) (bytes fl),
                     pos := pos fl + length dat\<rparr>)\<rparr>))"

text \<open>\<open>send\<close> on a connected datagram socket: the whole datagram or \<open>-1\<close>.\<close>

definition send :: "state \<Rightarrow> int \<Rightarrow> byte list \<Rightarrow> int \<times> state" where
  "send st s dgram =
     (if s \<in> socks st then (int (length dgram), st\<lparr>sent := sent st @ [(s, dgram)]\<rparr>)
      else (- 1, st))"

definition close_fd :: "state \<Rightarrow> int \<Rightarrow> state" where
  "close_fd st f = st\<lparr>files := (files st)(f := None), socks := socks st - {f}\<rparr>"

section \<open>Sending packets\<close>

definition data_header :: "32 word \<Rightarrow> byte list" where
  "data_header blk = [0, word_of_int OP_DATA, ucast (drop_bit 8 blk AND 0xff), ucast (blk AND 0xff)]"

text \<open>
  \<open>tftp_send_data\<close>: the buffer holds the header and what \<open>pread\<close> returned;
  \<open>p - buf\<close> is \<open>4 + len\<close>. Allocation of the \<open>4 + blksize\<close> bytes is taken to succeed.
\<close>

definition tftp_send_data :: "tftp_client \<Rightarrow> 32 word \<Rightarrow> size_t \<Rightarrow> size_t \<Rightarrow> state \<Rightarrow> int \<times> state" where
  "tftp_send_data client blk offset response_size st =
     (case pread st (fd client) (blksize client) offset of
        None \<Rightarrow> (- 1, st)
      | Some chunk \<Rightarrow>
          if response_size \<noteq> 0 then
            (let send_len = 4 + response_size in
             if unat send_len > 4 + length chunk then (- EINVAL, st)
             else send st (sock client) (take (unat send_len) (data_header blk @ chunk)))
          else send st (sock client) (data_header blk @ chunk))"

section \<open>The reader\<close>

text \<open>
  The \<open>for\<close> loop of \<open>handle_reader\<close>. \<open>b\<close> is the loop variable \<open>block\<close>, a
  \<open>uint16_t\<close>, so \<open>block++\<close> wraps at 65536 while the bound \<open>last + wsize\<close> (\<open>last_blk\<close> here) is a
  \<open>size_t\<close>: the loop need not end, and \<open>None\<close> stands for a run that never leaves it.
\<close>

partial_function (option) reader_loop :: "tftp_client \<Rightarrow> 16 word \<Rightarrow> 16 word \<Rightarrow> state \<Rightarrow> state option" where
  "reader_loop client last_blk b st =
     (if (ucast b :: size_t) < ucast last_blk + wsize client then
        (let offset = seek client + ucast b * blksize client;
             response_size =
               (if (ucast b + 1) * blksize client > rsize client
                then rsize client mod blksize client else 0);
             r = tftp_send_data client (ucast b + 1) offset response_size st
         in if fst r < 0 then Some (snd r)
            else if fst r = 0 then Some (snd r)
            else if (ucast b + 1) * blksize client > rsize client then Some (snd r)
            else reader_loop client last_blk (b + 1) (snd r))
      else Some st)"

definition handle_reader :: "tftp_client \<Rightarrow> recvd \<Rightarrow> state \<Rightarrow> (int \<times> state) option" where
  "handle_reader client r st =
     (if len r < 0 then Some (- 1, st)
      else if sq_node (src r) \<noteq> sq_node (sq client) \<or> sq_port (src r) \<noteq> sq_port (sq client)
        then Some (- 1, st)
      else
        (let opcode = push_bit 8 (uint (buf r 0)) OR uint (buf r 1) in
         if opcode = OP_ERROR then Some (- 1, st)
         else if opcode \<noteq> OP_ACK then Some (- 1, st)
         else
           (let last_blk = (word_of_int (push_bit 8 (uint (buf r 2)) OR uint (buf r 3)) :: 16 word) in
            if ucast last_blk * blksize client > rsize client then Some (0, st)
            else
              (case reader_loop client last_blk last_blk st of
                 None \<Rightarrow> None
               | Some st' \<Rightarrow> Some (1, st')))))"

text \<open>\<open>client_close_and_free\<close>, on the registry the client is linked in.\<close>

definition client_close_and_free :: "tftp_client \<Rightarrow> tftp_client list \<Rightarrow> state \<Rightarrow> tftp_client list \<times> state" where
  "client_close_and_free client reg st =
     (remove1 client reg, close_fd (close_fd st (sock client)) (fd client))"

text \<open>
  The body of the readers loop of \<open>main\<close> for one client whose socket is readable:
  \<open>ret = handle_reader(client); if (ret <= 0) client_close_and_free(client);\<close>
\<close>

definition main_reader :: "tftp_client \<Rightarrow> recvd \<Rightarrow> state \<Rightarrow> state option" where
  "main_reader client r st =
     (case handle_reader client r st of
        None \<Rightarrow> None
      | Some (ret, st') \<Rightarrow>
          if ret \<le> 0 then
            (let (reg, st'') = client_close_and_free client (readers st') st'
             in Some (st''\<lparr>readers := reg\<rparr>))
          else Some st')"

section \<open>The writer\<close>

definition str :: "string \<Rightarrow> byte list" where
  "str s = map of_char s"

definition tftp_send_ack :: "state \<Rightarrow> int \<Rightarrow> int \<Rightarrow> int \<times> state" where
  "tftp_send_ack st s blk =
     send st s [0, word_of_int OP_ACK, word_of_int (drop_bit 8 (blk mod 65536)), word_of_int (blk mod 65536)]"

text \<open>\<open>tftp_send_error\<close>; \<open>calloc\<close> is taken to succeed.\<close>

definition tftp_send_error :: "state \<Rightarrow> int \<Rightarrow> int \<Rightarrow> byte list \<Rightarrow> int \<times> state" where
  "tftp_send_error st s code msg =
     send st s ([0, word_of_int OP_ERROR, word_of_int (drop_bit 8 (code mod 65536)), word_of_int (code mod 65536)]
                @ msg @ [0])"

text \<open>
  \<open>handle_writer\<close>. Its receive array has 516 cells. \<open>payload = len - 4\<close> is a
  \<open>size_t\<close> and wraps when fewer than four bytes arrived; \<open>write\<close> would then read
  past the array, which nothing here describes: the result is \<open>None\<close>.
\<close>

definition handle_writer :: "tftp_client \<Rightarrow> recvd \<Rightarrow> state \<Rightarrow> (int \<times> state) option" where
  "handle_writer client r st =
     (if len r < 0 then Some (- 1, st)
      else if sq_node (src r) \<noteq> sq_node (sq client) \<or> sq_port (src r) \<noteq> sq_port (sq client)
        then Some (- 1, st)
      else
        (let opcode = push_bit 8 (uint (buf r 0)) OR uint (buf r 1);
             blk = (word_of_int (push_bit 8 (uint (buf r 2)) OR uint (buf r 3)) :: 16 word)
         in if opcode \<noteq> OP_DATA then
              Some (- 1, snd (tftp_send_error st (sock client) 4 (str ''Expected DATA opcode'')))
            else
              (let payload = (word_of_int (len r - 4) :: size_t) in
               if unat payload > 512 then None
               else
                 (let w = write_fd st (fd client) (map (buf r) [4 ..< 4 + unat payload]) in
                  if fst w < 0 then Some (- 1, snd w)
                  else Some (if payload = 512 then 1 else 0,
                             snd (tftp_send_ack (snd w) (sock client) (uint blk)))))))"

text \<open>The body of the writers loop of \<open>main\<close> for one client whose socket is readable.\<close>

definition main_writer :: "tftp_client \<Rightarrow> recvd \<Rightarrow> state \<Rightarrow> state option" where
  "main_writer client r st =
     (case handle_writer client r st of
        None \<Rightarrow> None
      | Some (ret, st') \<Rightarrow>
          if ret \<le> 0 then
            (let (reg, st'') = client_close_and_free client (writers st') st'
             in Some (st''\<lparr>writers := reg\<rparr>))
          else Some st')"

section \<open>Requests\<close>

text \<open>
  A request is read in place from the receive array of \<open>main\<close>: \<open>arr\<close> is the whole
  array after \<open>recvfrom\<close>, the datagram first and then whatever the array held before.
  \<open>strlen\<close> from position \<open>p\<close> is \<open>None\<close> when no NUL follows inside the array.
\<close>

definition strlen_at :: "byte list \<Rightarrow> nat \<Rightarrow> nat option" where
  "strlen_at arr p =
     (if 0 \<in> set (drop p arr) then Some (length (takeWhile (\<lambda>b. b \<noteq> 0) (drop p arr))) else None)"

definition tolower :: "byte \<Rightarrow> byte" where
  "tolower b = (if 0x41 \<le> b \<and> b \<le> 0x5a then b + 0x20 else b)"

definition strcasecmp :: "byte list \<Rightarrow> byte list \<Rightarrow> int" where
  "strcasecmp a b = (if map tolower a = map tolower b then 0 else 1)"

definition isspace :: "byte \<Rightarrow> bool" where
  "isspace b = (b = 0x20 \<or> (0x09 \<le> b \<and> b \<le> 0x0d))"

definition isdigit :: "byte \<Rightarrow> bool" where
  "isdigit b = (0x30 \<le> b \<and> b \<le> 0x39)"

fun digits :: "int \<Rightarrow> byte list \<Rightarrow> int" where
  "digits acc [] = acc"
| "digits acc (b # bs) = (if isdigit b then digits (acc * 10 + (uint b - 48)) bs else acc)"

text \<open>
  \<open>atoi\<close> as the C library of the target has it, \<open>(int) strtol(nptr, NULL, 10)\<close>:
  leading white space, an optional sign, then digits up to the first byte that is none;
  \<open>strtol\<close> gives the number, held to the range of \<open>long\<close>, and the conversion to
  \<open>int\<close> keeps its low 32 bits.
\<close>

definition LONG_MAX :: int where "LONG_MAX = 2 ^ 63 - 1"
definition LONG_MIN :: int where "LONG_MIN = - (2 ^ 63)"

definition strtol :: "byte list \<Rightarrow> int" where
  "strtol s =
     (let v = (case dropWhile isspace s of
                 [] \<Rightarrow> 0
               | c # cs \<Rightarrow>
                   if c = 0x2d then - digits 0 cs
                   else if c = 0x2b then digits 0 cs
                   else digits 0 (c # cs))
      in if v > LONG_MAX then LONG_MAX else if v < LONG_MIN then LONG_MIN else v)"

definition atoi :: "byte list \<Rightarrow> int" where
  "atoi s = sint (word_of_int (strtol s) :: 32 word)"

text \<open>The six locals of \<open>handle_rrq\<close> and \<open>handle_wrq\<close> that \<open>parse_options\<close> writes.\<close>

record opts =
  o_blksize :: size_t
  o_tsize :: size_t
  o_wsize :: size_t
  o_timeoutms :: "32 word"
  o_rsize :: size_t
  o_seek :: size_t

definition defaults :: opts where
  "defaults = \<lparr> o_blksize = 512, o_tsize = - 1, o_wsize = 0, o_timeoutms = 1000, o_rsize = 0, o_seek = 0 \<rparr>"

text \<open>The \<open>strcmp\<close> chain in the body of the loop of \<open>parse_options\<close>.\<close>

definition set_option :: "byte list \<Rightarrow> byte list \<Rightarrow> opts \<Rightarrow> opts" where
  "set_option opt v os =
     (if opt = str ''blksize'' then os\<lparr>o_blksize := word_of_int (atoi v)\<rparr>
      else if opt = str ''timeoutms'' then os\<lparr>o_timeoutms := word_of_int (atoi v)\<rparr>
      else if opt = str ''tsize'' then os\<lparr>o_tsize := word_of_int (atoi v)\<rparr>
      else if opt = str ''rsize'' then os\<lparr>o_rsize := word_of_int (atoi v)\<rparr>
      else if opt = str ''wsize'' then os\<lparr>o_wsize := word_of_int (atoi v)\<rparr>
      else if opt = str ''seek'' then os\<lparr>o_seek := word_of_int (atoi v)\<rparr>
      else os)"

text \<open>
  \<open>parse_options\<close>, from position \<open>p\<close> of the array up to the end \<open>e\<close> of the
  datagram. \<open>None\<close>: a \<open>strlen\<close> left the array.
\<close>

function parse_options :: "byte list \<Rightarrow> nat \<Rightarrow> nat \<Rightarrow> opts \<Rightarrow> opts option" where
  "parse_options arr p e os =
     (if p < e then
        (case strlen_at arr p of
           None \<Rightarrow> None
         | Some n1 \<Rightarrow>
             (case strlen_at arr (p + n1 + 1) of
                None \<Rightarrow> None
              | Some n2 \<Rightarrow>
                  parse_options arr (p + n1 + 1 + n2 + 1) e
                    (set_option (take n1 (drop p arr)) (take n2 (drop (p + n1 + 1) arr)) os)))
      else Some os)"
  by pat_completeness auto
termination
  by (relation "measure (\<lambda>(arr, p, e, os). e - p)") auto

declare parse_options.simps [simp del]

text \<open>\<open>sprintf\<close> with \<open>%zd\<close> or \<open>%d\<close>: the signed decimal numeral.\<close>

fun dec_nat :: "nat \<Rightarrow> byte list" where
  "dec_nat n = (if n < 10 then [0x30 + of_nat n] else dec_nat (n div 10) @ [0x30 + of_nat (n mod 10)])"

declare dec_nat.simps [simp del]

definition dec :: "int \<Rightarrow> byte list" where
  "dec i = (if i < 0 then 0x2d # dec_nat (nat (- i)) else dec_nat (nat i))"

text \<open>
  \<open>tftp_send_oack\<close>. A pointer argument is an option, \<open>None\<close> for \<open>NULL\<close>.
  \<open>oack_fields\<close> lists the options the function writes, in its order, each with the
  number it prints; \<open>oack_entry\<close> is the \<open>strcpy\<close>, \<open>sprintf\<close> and NUL of one of them.
\<close>

definition oack_fields ::
  "size_t option \<Rightarrow> size_t option \<Rightarrow> size_t option \<Rightarrow> 32 word option \<Rightarrow> size_t option \<Rightarrow> size_t option
   \<Rightarrow> (string \<times> int) list" where
  "oack_fields a_blocksize a_tsize a_wsize a_timeoutms a_rsize a_seek =
     (case a_blocksize of None \<Rightarrow> [] | Some v \<Rightarrow> [(''blksize'', sint v)])
     @ (case a_timeoutms of None \<Rightarrow> [] | Some v \<Rightarrow> [(''timeoutms'', sint v)])
     @ (case a_tsize of None \<Rightarrow> [] | Some v \<Rightarrow> if v \<noteq> - 1 then [(''tsize'', sint v)] else [])
     @ (case a_wsize of None \<Rightarrow> [] | Some v \<Rightarrow> [(''wsize'', sint v)])
     @ (case a_rsize of None \<Rightarrow> [] | Some v \<Rightarrow> [(''rsize'', sint v)])
     @ (case a_seek of None \<Rightarrow> [] | Some v \<Rightarrow> [(''seek'', sint v)])"

definition oack_entry :: "string \<times> int \<Rightarrow> byte list" where
  "oack_entry kv = str (fst kv) @ [0] @ dec (snd kv) @ [0]"

definition oack_bytes :: "(string \<times> int) list \<Rightarrow> byte list" where
  "oack_bytes fs = [0, word_of_int OP_OACK] @ concat (map oack_entry fs)"

definition tftp_send_oack ::
  "state \<Rightarrow> int \<Rightarrow> size_t option \<Rightarrow> size_t option \<Rightarrow> size_t option \<Rightarrow> 32 word option \<Rightarrow> size_t option
   \<Rightarrow> size_t option \<Rightarrow> int \<times> state" where
  "tftp_send_oack st s a_blocksize a_tsize a_wsize a_timeoutms a_rsize a_seek =
     send st s (oack_bytes (oack_fields a_blocksize a_tsize a_wsize a_timeoutms a_rsize a_seek))"

text \<open>
  What the operating system and the path translator answer while one request is
  handled: the return values of \<open>qrtr_open\<close> and \<open>connect\<close>, the descriptor (or
  negative value) \<open>translate_open\<close> returns for a file name and open flags, and the
  bytes of the file such a descriptor is open on.
\<close>

record env =
  qrtr_open :: int
  connect :: int
  translate_open :: "byte list \<Rightarrow> int \<Rightarrow> int"
  opened_bytes :: "byte list \<Rightarrow> byte list"

definition O_RDONLY :: int where "O_RDONLY = 0"
definition O_WRONLY :: int where "O_WRONLY = 1"
definition O_CREAT :: int where "O_CREAT = 64"

text \<open>
  Modelled from the spec: \<open>list_add\<close> and \<open>list_del\<close> of list.h, which is not among
  the sources. A new client is inserted into its registry; where in the list is not
  said, and nothing below depends on it.
\<close>

definition list_add :: "tftp_client list \<Rightarrow> tftp_client \<Rightarrow> tftp_client list" where
  "list_add reg client = reg @ [client]"

definition handle_rrq :: "env \<Rightarrow> byte list \<Rightarrow> nat \<Rightarrow> sockaddr_qrtr \<Rightarrow> state \<Rightarrow> state option" where
  "handle_rrq e arr n from st =
     (case strlen_at arr 2 of
        None \<Rightarrow> None
      | Some n1 \<Rightarrow>
     (case strlen_at arr (2 + n1 + 1) of
        None \<Rightarrow> None
      | Some n2 \<Rightarrow>
     (let filename = take n1 (drop 2 arr);
          mode = take n2 (drop (2 + n1 + 1) arr);
          p = 2 + n1 + 1 + n2 + 1
      in
      if strcasecmp mode (str ''octet'') \<noteq> 0 then Some st
      else
     (case (if p < n then parse_options arr p n defaults else Some defaults) of
        None \<Rightarrow> None
      | Some os \<Rightarrow>
     (let do_oack = (p < n);
          s = qrtr_open e
      in
      if s < 0 then Some st
      else
     (let st1 = st\<lparr>socks := insert s (socks st)\<rparr> in
      if connect e < 0 then Some st1
      else
     (let f = translate_open e filename O_RDONLY in
      if f < 0 then Some (snd (tftp_send_error st1 s 1 (str ''file not found'')))
      else
     (let st2 = st1\<lparr>files := (files st1)(f \<mapsto>
                   \<lparr>bytes = opened_bytes e filename, pos = 0, readable = True, writable = False\<rparr>)\<rparr>;
          tsize = (if o_tsize os \<noteq> - 1 then of_nat (length (opened_bytes e filename)) else o_tsize os);
          client = \<lparr>sq = from, sock = s, fd = f, block = 0, blksize = o_blksize os,
                    rsize = o_rsize os, wsize = o_wsize os, timeoutms = o_timeoutms os,
                    seek = o_seek os\<rparr>;
          st3 = st2\<lparr>readers := list_add (readers st2) client\<rparr>
      in
      if do_oack then
        Some (snd (tftp_send_oack st3 (sock client) (Some (o_blksize os))
                     (if tsize \<noteq> 0 then Some tsize else None)
                     (if o_wsize os \<noteq> 0 then Some (o_wsize os) else None)
                     (Some (timeoutms client))
                     (if o_rsize os \<noteq> 0 then Some (o_rsize os) else None)
                     (if o_seek os \<noteq> 0 then Some (o_seek os) else None)))
      else Some (snd (tftp_send_data client 1 0 0 st3))))))))))"

definition handle_wrq :: "env \<Rightarrow> byte list \<Rightarrow> nat \<Rightarrow> sockaddr_qrtr \<Rightarrow> state \<Rightarrow> state option" where
  "handle_wrq e arr n from st =
     (case strlen_at arr 2 of
        None \<Rightarrow> None
      | Some n1 \<Rightarrow>
     (case strlen_at arr (2 + n1 + 1) of
        None \<Rightarrow> None
      | Some n2 \<Rightarrow>
     (let filename = take n1 (drop 2 arr);
          mode = take n2 (drop (2 + n1 + 1) arr);
          p = 2 + n1 + 1 + n2 + 1
      in
      if strcasecmp mode (str ''octet'') \<noteq> 0 then Some st
      else
     (case (if p < n then parse_options arr p n defaults else Some defaults) of
        None \<Rightarrow> None
      | Some os \<Rightarrow>
     (let do_oack = (p < n);
          f = translate_open e filename (O_WRONLY OR O_CREAT)
      in
      if f < 0 then Some st
      else
     (let st1 = st\<lparr>files := (files st)(f \<mapsto>
                   \<lparr>bytes = opened_bytes e filename, pos = 0, readable = False, writable = True\<rparr>)\<rparr>;
          s = qrtr_open e
      in
      if s < 0 then Some st1
      else
     (let st2 = st1\<lparr>socks := insert s (socks st1)\<rparr> in
      if connect e < 0 then Some st2
      else
     (let tsize = o_tsize os;
          client = \<lparr>sq = from, sock = s, fd = f, block = 0, blksize = o_blksize os,
                    rsize = o_rsize os, wsize = o_wsize os, timeoutms = o_timeoutms os,
                    seek = o_seek os\<rparr>;
          st3 = st2\<lparr>writers := list_add (writers st2) client\<rparr>
      in
      if do_oack then
        Some (snd (tftp_send_oack st3 (sock client) (Some (o_blksize os))
                     (if tsize \<noteq> 0 then Some tsize else None)
                     (if o_wsize os \<noteq> 0 then Some (o_wsize os) else None)
                     (Some (timeoutms client))
                     (if o_rsize os \<noteq> 0 then Some (o_rsize os) else None)
                     (if o_seek os \<noteq> 0 then Some (o_seek os) else None)))
      else Some (snd (tftp_send_data client 1 0 0 st3))))))))))"

section \<open>Datagrams of the peer and concrete transfers\<close>

text \<open>
  The datagrams a peer sends, in the wire format the handlers decode: an \<open>Ack\<close>, a
  \<open>Data\<close> packet, and a request with its file name, mode and options, every string
  followed by a NUL.
\<close>

definition ack_bytes :: "16 word \<Rightarrow> byte list" where
  "ack_bytes n = [0, 4, ucast (drop_bit 8 n), ucast n]"

definition data_bytes :: "16 word \<Rightarrow> byte list \<Rightarrow> byte list" where
  "data_bytes n payload = [0, 3, ucast (drop_bit 8 n), ucast n] @ payload"

definition option_bytes :: "(byte list \<times> byte list) list \<Rightarrow> byte list" where
  "option_bytes kvs = concat (map (\<lambda>kv. fst kv @ [0] @ snd kv @ [0]) kvs)"

definition request_bytes :: "byte \<Rightarrow> byte list \<Rightarrow> byte list \<Rightarrow> (byte list \<times> byte list) list \<Rightarrow> byte list" where
  "request_bytes opc filename mode kvs = [0, opc] @ filename @ [0] @ mode @ [0] @ option_bytes kvs"

text \<open>
  A peer, another address, and a transfer for the examples: a reader on socket 5 reading
  descriptor 6, a readable file of \<open>n\<close> bytes \<open>A\<close>. \<open>zeros\<close> is a receive array that
  held zeros before the call.
\<close>

definition peer :: sockaddr_qrtr where
  "peer = \<lparr>sq_node = 1, sq_port = 2\<rparr>"

definition stranger :: sockaddr_qrtr where
  "stranger = \<lparr>sq_node = 3, sq_port = 4\<rparr>"

definition zeros :: "nat \<Rightarrow> byte" where
  "zeros i = 0"

definition a_client :: "size_t \<Rightarrow> size_t \<Rightarrow> size_t \<Rightarrow> tftp_client" where
  "a_client bs rs ws =
     \<lparr>sq = peer, sock = 5, fd = 6, block = 0, blksize = bs, rsize = rs, wsize = ws,
      timeoutms = 1000, seek = 0\<rparr>"

definition reading :: "tftp_client \<Rightarrow> nat \<Rightarrow> state" where
  "reading c n =
     \<lparr>readers = [c], writers = [],
      files = (\<lambda>_. None)(6 \<mapsto> \<lparr>bytes = replicate n 0x41, pos = 0, readable = True, writable = False\<rparr>),
      socks = {5}, sent = []\<rparr>"

definition writing :: "tftp_client \<Rightarrow> state" where
  "writing c =
     \<lparr>readers = [], writers = [c],
      files = (\<lambda>_. None)(6 \<mapsto> \<lparr>bytes = [], pos = 0, readable = False, writable = True\<rparr>),
      socks = {5}, sent = []\<rparr>"

text \<open>
  The answers of the system for the request examples: the new socket is 5, \<open>connect\<close>
  succeeds, the one file there is, \<open>f\<close>, opens as descriptor 6 and holds \<open>n\<close> bytes
  \<open>A\<close>. \<open>idle\<close> is the server before any request.
\<close>

definition an_env :: "nat \<Rightarrow> env" where
  "an_env n =
     \<lparr>qrtr_open = 5, connect = 0,
      translate_open = (\<lambda>name flags. if name = str ''f'' then 6 else - 1),
      opened_bytes = (\<lambda>name. replicate n 0x41)\<rparr>"

definition idle :: state where
  "idle = \<lparr>readers = [], writers = [], files = (\<lambda>_. None), socks = {}, sent = []\<rparr>"

text \<open>
  For the amended claim C9. \<open>given k kvs\<close> is the value of the last option named \<open>k\<close>
  among the options \<open>kvs\<close> of a request, and \<open>requested kvs\<close> holds, for each of the six
  known options, \<open>atoi\<close> of that value, or the default when the request has no option of
  the name. \<open>echoed os ts\<close> is the list of options an \<open>OptionAck\<close> then holds, \<open>ts\<close>
  being the \<open>tsize\<close> value at the time of the reply.
\<close>

definition given :: "string \<Rightarrow> (byte list \<times> byte list) list \<Rightarrow> byte list option" where
  "given k kvs = map_of (rev kvs) (str k)"

definition requested :: "(byte list \<times> byte list) list \<Rightarrow> opts" where
  "requested kvs =
     \<lparr>o_blksize = (case given ''blksize'' kvs of None \<Rightarrow> 512 | Some v \<Rightarrow> word_of_int (atoi v)),
      o_tsize = (case given ''tsize'' kvs of None \<Rightarrow> - 1 | Some v \<Rightarrow> word_of_int (atoi v)),
      o_wsize = (case given ''wsize'' kvs of None \<Rightarrow> 0 | Some v \<Rightarrow> word_of_int (atoi v)),
      o_timeoutms = (case given ''timeoutms'' kvs of None \<Rightarrow> 1000 | Some v \<Rightarrow> word_of_int (atoi v)),
      o_rsize = (case given ''rsize'' kvs of None \<Rightarrow> 0 | Some v \<Rightarrow> word_of_int (atoi v)),
      o_seek = (case given ''seek'' kvs of None \<Rightarrow> 0 | Some v \<Rightarrow> word_of_int (atoi v))\<rparr>"

definition echoed :: "opts \<Rightarrow> size_t \<Rightarrow> (string \<times> int) list" where
  "echoed os ts =
     [(''blksize'', sint (o_blksize os)), (''timeoutms'', sint (o_timeoutms os))]
     @ (if ts \<noteq> 0 \<and> ts \<noteq> - 1 then [(''tsize'', sint ts)] else [])
     @ (if o_wsize os \<noteq> 0 then [(''wsize'', sint (o_wsize os))] else [])
     @ (if o_rsize os \<noteq> 0 then [(''rsize'', sint (o_rsize os))] else [])
     @ (if o_seek os \<noteq> 0 then [(''seek'', sint (o_seek os))] else [])"

section \<open>Properties\<close>

subsection \<open>Words and bytes\<close>

lemma be16_decode:
  "(word_of_int (push_bit 8 (uint (ucast (drop_bit 8 n) :: byte)) OR uint (ucast n :: byte)) :: 16 word) = n"
  by (rule bit_word_eqI) (auto simp: bit_simps)

lemma unat16_bound: "unat (b :: 16 word) < 65536"
  using unsigned_less [of b, where 'a = nat] by simp

lemma unat_ucast16_64: "unat (ucast (b :: 16 word) :: size_t) = unat b"
proof -
  have "unat b < 2 ^ 64" using unat16_bound [of b] by simp
  then show ?thesis by (simp add: unsigned_ucast_eq take_bit_nat_eq_self)
qed

lemma mult_no_wrap:
  assumes "unat (bs :: size_t) < 2 ^ 32"
  shows "unat (ucast (n :: 16 word) * bs) = unat n * unat bs"
proof -
  have "unat n * unat bs \<le> 65536 * 2 ^ 32"
    using assms unat16_bound [of n] by (intro mult_mono) simp_all
  then have "unat (ucast n :: size_t) * unat bs < 2 ^ LENGTH(64)"
    by (simp add: unat_ucast16_64)
  then show ?thesis by (simp add: unat_mult_lem [THEN iffD1] unat_ucast16_64)
qed

lemma loop_cond:
  assumes "unat (l :: 16 word) + unat (ws :: size_t) < 65536"
  shows "((ucast (b :: 16 word) :: size_t) < ucast l + ws) = (unat b < unat l + unat ws)"
proof -
  have "unat (ucast l :: size_t) + unat ws < 2 ^ LENGTH(64)"
    using assms by (simp add: unat_ucast16_64)
  then have "unat (ucast l + ws) = unat l + unat ws"
    by (simp add: unat_add_lem [THEN iffD1] unat_ucast16_64)
  then show ?thesis by (simp add: word_less_nat_alt unat_ucast16_64)
qed

lemma suc16:
  assumes "unat (b :: 16 word) < 65535"
  shows "unat (b + 1) = unat b + 1"
proof -
  from assms have "unat b + unat (1 :: 16 word) < 2 ^ LENGTH(16)" by simp
  then show ?thesis by (simp add: unat_add_lem [THEN iffD1])
qed

lemma past_rsize_nat:
  assumes "unat (blksize c) < 2 ^ 32"
  shows "(ucast (n :: 16 word) * blksize c > rsize c) = (unat n * unat (blksize c) > unat (rsize c))"
  by (simp add: word_less_nat_alt mult_no_wrap [OF assms])

subsection \<open>What sending leaves alone\<close>

lemma send_frame:
  "send st s d = (n, st') \<Longrightarrow>
     readers st' = readers st \<and> writers st' = writers st \<and> files st' = files st \<and> socks st' = socks st"
  by (auto simp: send_def split: if_splits)

lemma tftp_send_data_frame:
  "tftp_send_data c blk off rs st = (n, st') \<Longrightarrow>
     readers st' = readers st \<and> writers st' = writers st \<and> files st' = files st \<and> socks st' = socks st"
  by (auto simp: tftp_send_data_def Let_def split: option.splits if_splits dest: send_frame)

lemma reader_loop_frame:
  assumes "reader_loop c l b st = Some st'"
  shows "readers st' = readers st \<and> writers st' = writers st \<and> files st' = files st \<and> socks st' = socks st"
proof (rule reader_loop.raw_induct
    [where P = "\<lambda>c l b st st'. readers st' = readers st \<and> writers st' = writers st
                  \<and> files st' = files st \<and> socks st' = socks st", OF _ assms])
  fix f :: "tftp_client \<Rightarrow> 16 word \<Rightarrow> 16 word \<Rightarrow> state \<Rightarrow> state option"
  fix k :: tftp_client and l0 b0 :: "16 word" and s y :: state
  assume IH: "\<And>k l0 b0 s y. f k l0 b0 s = Some y \<Longrightarrow>
              readers y = readers s \<and> writers y = writers s \<and> files y = files s \<and> socks y = socks s"
  assume body: "(if (ucast b0 :: size_t) < ucast l0 + wsize k then
        (let offset = seek k + ucast b0 * blksize k;
             response_size =
               (if (ucast b0 + 1) * blksize k > rsize k
                then rsize k mod blksize k else 0);
             r = tftp_send_data k (ucast b0 + 1) offset response_size s
         in if fst r < 0 then Some (snd r)
            else if fst r = 0 then Some (snd r)
            else if (ucast b0 + 1) * blksize k > rsize k then Some (snd r)
            else f k l0 (b0 + 1) (snd r))
      else Some s) = Some y"
  obtain n s1 where r: "tftp_send_data k (ucast b0 + 1) (seek k + ucast b0 * blksize k)
       (if (ucast b0 + 1) * blksize k > rsize k then rsize k mod blksize k else 0) s = (n, s1)"
    by (cases "tftp_send_data k (ucast b0 + 1) (seek k + ucast b0 * blksize k)
       (if (ucast b0 + 1) * blksize k > rsize k then rsize k mod blksize k else 0) s") auto
  note fr = tftp_send_data_frame [OF r]
  show "readers y = readers s \<and> writers y = writers s \<and> files y = files s \<and> socks y = socks s"
  proof (cases "(ucast b0 :: size_t) < ucast l0 + wsize k")
    case False
    with body show ?thesis by simp
  next
    case True
    with body r have "y = s1 \<or> f k l0 (b0 + 1) s1 = Some y"
      by (auto simp: Let_def split: if_splits)
    then show ?thesis using fr IH [of k l0 "b0 + 1" s1 y] by auto
  qed
qed

subsection \<open>The window loop returns\<close>

text \<open>
  When \<open>last + wsize\<close> stays below 65536 the 16-bit loop variable reaches the bound and
  the loop is left.
\<close>

lemma reader_loop_terminates:
  assumes "unat l + unat (wsize c) < 65536"
  shows "\<exists>st'. reader_loop c l b st = Some st'"
proof (induction "unat l + unat (wsize c) - unat b" arbitrary: b st rule: less_induct)
  case less
  show ?case
  proof (cases "unat b < unat l + unat (wsize c)")
    case False
    then show ?thesis
      by (subst reader_loop.simps) (simp add: loop_cond [OF assms])
  next
    case True
    with assms have "unat b < 65535" by simp
    then have suc: "unat (b + 1) = unat b + 1" by (rule suc16)
    have "unat l + unat (wsize c) - unat (b + 1) < unat l + unat (wsize c) - unat b"
      using True suc by simp
    from less [OF this] have next_ok: "\<And>s. \<exists>st'. reader_loop c l (b + 1) s = Some st'" .
    show ?thesis
      using next_ok
      by (subst reader_loop.simps) (simp add: loop_cond [OF assms] Let_def)
  qed
qed

subsection \<open>An Ack from the peer\<close>

lemma recvfrom_ack:
  "len (recvfrom 128 arr (ack_bytes n) a) = 4"
  "src (recvfrom 128 arr (ack_bytes n) a) = a"
  "buf (recvfrom 128 arr (ack_bytes n) a) 0 = 0"
  "buf (recvfrom 128 arr (ack_bytes n) a) (Suc 0) = 4"
  "buf (recvfrom 128 arr (ack_bytes n) a) 2 = ucast (drop_bit 8 n)"
  "buf (recvfrom 128 arr (ack_bytes n) a) 3 = ucast n"
  by (simp_all add: recvfrom_def ack_bytes_def numeral_3_eq_3)

lemma handle_reader_ack:
  "handle_reader c (recvfrom 128 arr (ack_bytes n) (sq c)) st =
     (if ucast n * blksize c > rsize c then Some (0, st)
      else (case reader_loop c n n st of None \<Rightarrow> None | Some st' \<Rightarrow> Some (1, st')))"
  by (simp add: handle_reader_def recvfrom_ack be16_decode OP_ACK_def OP_ERROR_def Let_def)

text \<open>The rules that evaluate the handlers on a concrete transfer.\<close>

lemmas eval_reader =
  peer_def stranger_def zeros_def ack_bytes_def a_client_def reading_def
  handle_reader_def recvfrom_def reader_loop.simps tftp_send_data_def pread_def send_def
  data_header_def OP_ACK_def OP_ERROR_def OP_DATA_def EINVAL_def
  main_reader_def client_close_and_free_def close_fd_def Let_def

lemmas eval_writer =
  peer_def stranger_def zeros_def data_bytes_def a_client_def writing_def
  handle_writer_def recvfrom_def write_fd_def send_def tftp_send_ack_def tftp_send_error_def
  OP_ACK_def OP_ERROR_def OP_DATA_def str_def
  main_writer_def client_close_and_free_def close_fd_def Let_def

subsection \<open>Packets from another address\<close>

text \<open>
  Both handlers return \<open>-1\<close> on a datagram whose source is not the client's peer, before
  they look at its bytes, and \<open>main\<close> closes and frees a client whose handler returned
  \<open>0\<close> or less.
\<close>

lemma stray_packet_reader:
  assumes "0 \<le> len r"
    and "sq_node (src r) \<noteq> sq_node (sq c) \<or> sq_port (src r) \<noteq> sq_port (sq c)"
  shows "handle_reader c r st = Some (- 1, st)"
    and "main_reader c r st =
           Some ((close_fd (close_fd st (sock c)) (fd c))\<lparr>readers := remove1 c (readers st)\<rparr>)"
  using assms by (auto simp: handle_reader_def main_reader_def client_close_and_free_def close_fd_def)

lemma stray_packet_writer:
  assumes "0 \<le> len r"
    and "sq_node (src r) \<noteq> sq_node (sq c) \<or> sq_port (src r) \<noteq> sq_port (sq c)"
  shows "handle_writer c r st = Some (- 1, st)"
    and "main_writer c r st =
           Some ((close_fd (close_fd st (sock c)) (fd c))\<lparr>writers := remove1 c (writers st)\<rparr>)"
  using assms by (auto simp: handle_writer_def main_writer_def client_close_and_free_def close_fd_def)

text \<open>
  C2. The claim: a packet on a transfer socket whose source (node, port) differs from the
  client's peer is discarded and the transfer is unchanged, the client staying in its
  registry with socket and file open. In the code the packet costs the transfer: an
  \<open>Ack\<close> from another address to a reader, and a \<open>Data\<close> packet from another address to
  a writer, each leave the registry empty and both descriptors closed. Nothing is sent,
  which is the one part of the claim that holds.
\<close>

theorem C2_stray_packet_ends_transfer:
  "main_reader (a_client 8 20 2) (recvfrom 128 zeros (ack_bytes 0) stranger)
       (reading (a_client 8 20 2) 100)
     = Some \<lparr>readers = [], writers = [], files = (\<lambda>_. None), socks = {}, sent = []\<rparr>
   \<and> main_writer (a_client 512 0 0) (recvfrom 516 zeros (data_bytes 1 [0x41, 0x42]) stranger)
       (writing (a_client 512 0 0))
     = Some \<lparr>readers = [], writers = [], files = (\<lambda>_. None), socks = {}, sent = []\<rparr>"
  by (simp add: eval_reader eval_writer)

subsection \<open>When an Ack ends a read\<close>

text \<open>
  C3, as the claim states it, fails: with \<open>blksize = 8\<close> and \<open>rsize = 16\<close> the
  \<open>Ack\<close> of block 2 has \<open>n * blksize = rsize\<close>, yet \<open>handle_reader\<close> returns \<open>1\<close> after
  sending block 3, and the client stays registered.
\<close>

theorem C3_ack_at_rsize_counterexample:
  "0 < rsize (a_client 8 16 2)
   \<and> unat (rsize (a_client 8 16 2)) \<le> unat (2 :: 16 word) * unat (blksize (a_client 8 16 2))
   \<and> handle_reader (a_client 8 16 2) (recvfrom 128 zeros (ack_bytes 2) peer) (reading (a_client 8 16 2) 100)
       = Some (1, (reading (a_client 8 16 2) 100)\<lparr>sent := [(5, [0, 3, 0, 3] @ replicate 8 0x41)]\<rparr>)
   \<and> main_reader (a_client 8 16 2) (recvfrom 128 zeros (ack_bytes 2) peer) (reading (a_client 8 16 2) 100)
       = Some ((reading (a_client 8 16 2) 100)\<lparr>sent := [(5, [0, 3, 0, 3] @ replicate 8 0x41)]\<rparr>)"
  by (simp add: eval_reader)

text \<open>
  C3, amended. For a reader with \<open>rsize > 0\<close> and \<open>blksize\<close> below \<open>2^32\<close>, and an
  \<open>Ack(n)\<close> from the peer with \<open>n + wsize\<close> below 65536, the \<open>Ack\<close> ends the transfer
  exactly when \<open>n * blksize > rsize\<close>: then \<open>handle_reader\<close> returns \<open>0\<close> without
  sending, and \<open>main\<close> removes the client and closes its socket and file. Otherwise,
  and so when \<open>n * blksize = rsize\<close>, it returns \<open>1\<close> and the client stays registered.
  The first bound keeps \<open>n * blksize\<close> inside \<open>size_t\<close>; the second keeps the 16-bit
  block counter of the window loop from wrapping, so that the handler returns.
\<close>

theorem C3_ack_terminal_iff_past_rsize:
  assumes "0 < rsize c"
    and "unat (blksize c) < 2 ^ 32"
    and "unat n + unat (wsize c) < 65536"
  shows "\<exists>st'. main_reader c (recvfrom 128 arr (ack_bytes n) (sq c)) st = Some st' \<and>
           (if unat n * unat (blksize c) > unat (rsize c)
            then handle_reader c (recvfrom 128 arr (ack_bytes n) (sq c)) st = Some (0, st)
                 \<and> readers st' = remove1 c (readers st) \<and> sent st' = sent st
                 \<and> sock c \<notin> socks st' \<and> files st' (fd c) = None
            else handle_reader c (recvfrom 128 arr (ack_bytes n) (sq c)) st = Some (1, st')
                 \<and> readers st' = readers st)"
proof (cases "unat n * unat (blksize c) > unat (rsize c)")
  case True
  then have h: "handle_reader c (recvfrom 128 arr (ack_bytes n) (sq c)) st = Some (0, st)"
    by (simp add: handle_reader_ack past_rsize_nat [OF assms(2)])
  show ?thesis
    using True by (simp add: h main_reader_def client_close_and_free_def close_fd_def)
next
  case False
  obtain st' where l: "reader_loop c n n st = Some st'"
    using reader_loop_terminates [OF assms(3)] by blast
  have h: "handle_reader c (recvfrom 128 arr (ack_bytes n) (sq c)) st = Some (1, st')"
    using False l by (simp add: handle_reader_ack past_rsize_nat [OF assms(2)])
  show ?thesis
    using False reader_loop_frame [OF l] by (simp add: h main_reader_def)
qed

theorem C3_ack_terminal_iff_past_rsize_witness:
  "0 < rsize (a_client 8 20 2) \<and> unat (blksize (a_client 8 20 2)) < 2 ^ 32
   \<and> unat (3 :: 16 word) + unat (wsize (a_client 8 20 2)) < 65536
   \<and> unat (3 :: 16 word) * unat (blksize (a_client 8 20 2)) > unat (rsize (a_client 8 20 2))
   \<and> (\<exists>st'. main_reader (a_client 8 20 2) (recvfrom 128 zeros (ack_bytes 3) peer)
                 (reading (a_client 8 20 2) 100) = Some st'
         \<and> readers st' = [] \<and> sent st' = [])"
proof -
  have h1: "0 < rsize (a_client 8 20 2)" by (simp add: a_client_def)
  have h2: "unat (blksize (a_client 8 20 2)) < 2 ^ 32" by (simp add: a_client_def)
  have h3: "unat (3 :: 16 word) + unat (wsize (a_client 8 20 2)) < 65536" by (simp add: a_client_def)
  have h4: "unat (3 :: 16 word) * unat (blksize (a_client 8 20 2)) > unat (rsize (a_client 8 20 2))"
    by (simp add: a_client_def)
  have sq: "sq (a_client 8 20 2) = peer" by (simp add: a_client_def)
  from C3_ack_terminal_iff_past_rsize [OF h1 h2 h3, of zeros "reading (a_client 8 20 2) 100"]
  obtain st' where
    "main_reader (a_client 8 20 2) (recvfrom 128 zeros (ack_bytes 3) peer)
       (reading (a_client 8 20 2) 100) = Some st'"
    and "readers st' = remove1 (a_client 8 20 2) (readers (reading (a_client 8 20 2) 100))"
    and "sent st' = sent (reading (a_client 8 20 2) 100)"
    using h4 by (auto simp: sq)
  then show ?thesis using h1 h2 h3 h4 by (simp add: reading_def)
qed

lemmas eval_request =
  an_env_def idle_def request_bytes_def option_bytes_def str_def
  handle_rrq_def handle_wrq_def strlen_at_def strcasecmp_def tolower_def
  parse_options.simps set_option_def defaults_def atoi_def strtol_def LONG_MAX_def LONG_MIN_def
  isspace_def isdigit_def
  tftp_send_oack_def oack_fields_def tftp_send_error_def list_add_def
  O_RDONLY_def O_WRONLY_def O_CREAT_def

subsection \<open>Reads without rsize, and the window\<close>

text \<open>
  Three facts about every reader, behind the examples that follow. Without \<open>rsize\<close>,
  every \<open>Ack\<close> but that of block 0 ends the transfer; with \<open>wsize = 0\<close> the window
  loop sends nothing; and without \<open>rsize\<close> the window loop stops after one call of
  \<open>tftp_send_data\<close>, made with no limit, whatever the window.
\<close>

lemma no_rsize_ack_ends:
  assumes "rsize c = 0" and "n \<noteq> 0" and "blksize c \<noteq> 0" and "unat (blksize c) < 2 ^ 32"
  shows "handle_reader c (recvfrom 128 arr (ack_bytes n) (sq c)) st = Some (0, st)"
proof -
  have "0 < unat n" and "0 < unat (blksize c)"
    using assms(2,3) by (simp_all add: unat_gt_0)
  then have "unat (rsize c) < unat n * unat (blksize c)"
    using assms(1) by simp
  then show ?thesis
    by (simp add: handle_reader_ack past_rsize_nat [OF assms(4)])
qed

lemma no_wsize_sends_nothing:
  assumes "wsize c = 0"
  shows "reader_loop c n n st = Some st"
  by (subst reader_loop.simps) (simp add: assms)

lemma no_rsize_window_is_one_block:
  assumes "rsize c = 0" and "blksize c \<noteq> 0" and "unat (blksize c) < 2 ^ 32"
    and "wsize c \<noteq> 0" and "unat n + unat (wsize c) < 65536"
  shows "reader_loop c n n st
         = Some (snd (tftp_send_data c (ucast n + 1) (seek c + ucast n * blksize c) 0 st))"
proof -
  have "0 < unat (wsize c)" using assms(4) by (simp add: unat_gt_0)
  then have c1: "(ucast n :: size_t) < ucast n + wsize c"
    by (simp add: loop_cond [OF assms(5)])
  have "unat n < 65535" using assms(5) \<open>0 < unat (wsize c)\<close> by simp
  then have s: "unat (n + 1) = unat n + 1" by (rule suc16)
  have u: "(ucast n + 1 :: size_t) = ucast (n + 1)"
  proof -
    have "unat (ucast n + 1 :: size_t) = unat n + 1"
      using unat16_bound [of n]
      by (simp add: unat_add_lem [THEN iffD1] unat_ucast16_64)
    then show ?thesis by (simp add: word_unat_eq_iff unat_ucast16_64 s)
  qed
  have "0 < unat (n + 1)" using s by simp
  moreover have "0 < unat (blksize c)" using assms(2) by (simp add: unat_gt_0)
  ultimately have "unat (rsize c) < unat (n + 1) * unat (blksize c)" using assms(1) by simp
  then have c2: "rsize c < (ucast n + 1) * blksize c"
    by (simp only: u past_rsize_nat [OF assms(3)])
  have m: "rsize c mod blksize c = 0" using assms(1) by simp
  show ?thesis
    by (subst reader_loop.simps) (simp only: c1 c2 m if_True Let_def if_cancel)
qed


text \<open>
  C1. The claim: a read whose request set no \<open>rsize\<close> delivers the whole file, and an
  \<open>Ack\<close> with block number 1 or more does not by itself end it. In the code the test
  \<open>last * blksize > rsize\<close> is made with \<open>rsize = 0\<close> as well. A request without
  options for a file of 1024 bytes gets block 1 (512 bytes); the \<open>Ack\<close> of block 1 then
  ends the transfer, with 512 bytes never sent. The same \<open>Ack\<close> ends a reader that has
  a window of 4 before it has sent anything.
\<close>

theorem C1_full_read_cut_after_first_block:
  "length (request_bytes 1 (str ''f'') (str ''octet'') []) = 10
   \<and> handle_rrq (an_env 1024) (request_bytes 1 (str ''f'') (str ''octet'') []) 10 peer idle
     = Some ((reading (a_client 512 0 0) 1024)\<lparr>sent := [(5, [0, 3, 0, 1] @ replicate 512 0x41)]\<rparr>)
   \<and> main_reader (a_client 512 0 0) (recvfrom 128 zeros (ack_bytes 1) peer)
       ((reading (a_client 512 0 0) 1024)\<lparr>sent := [(5, [0, 3, 0, 1] @ replicate 512 0x41)]\<rparr>)
     = Some \<lparr>readers = [], writers = [], files = (\<lambda>_. None), socks = {},
             sent = [(5, [0, 3, 0, 1] @ replicate 512 0x41)]\<rparr>
   \<and> main_reader (a_client 512 0 4) (recvfrom 128 zeros (ack_bytes 1) peer)
       (reading (a_client 512 0 4) 1024)
     = Some \<lparr>readers = [], writers = [], files = (\<lambda>_. None), socks = {}, sent = []\<rparr>"
  by (simp add: eval_request eval_reader)


text \<open>
  C5. The claim: without a \<open>wsize\<close> option the window is 1, one data block per \<open>Ack\<close>.
  In the code the local \<open>wsize\<close> of \<open>handle_rrq\<close> starts at 0 and the window loop runs
  \<open>wsize\<close> times: a request with the one option \<open>blksize=8\<close> is answered by the
  \<open>OptionAck\<close>, the client is registered with \<open>wsize = 0\<close>, and the \<open>Ack\<close> of block 0
  is answered with no data at all; the client stays registered and waits.
\<close>

theorem C5_no_wsize_sends_nothing:
  "length (request_bytes 1 (str ''f'') (str ''octet'') [(str ''blksize'', str ''8'')]) = 20
   \<and> handle_rrq (an_env 100)
       (request_bytes 1 (str ''f'') (str ''octet'') [(str ''blksize'', str ''8'')]) 20 peer idle
     = Some ((reading (a_client 8 0 0) 100)
               \<lparr>sent := [(5, oack_bytes [(''blksize'', 8), (''timeoutms'', 1000)])]\<rparr>)
   \<and> main_reader (a_client 8 0 0) (recvfrom 128 zeros (ack_bytes 0) peer)
       ((reading (a_client 8 0 0) 100)
          \<lparr>sent := [(5, oack_bytes [(''blksize'', 8), (''timeoutms'', 1000)])]\<rparr>)
     = Some ((reading (a_client 8 0 0) 100)
               \<lparr>sent := [(5, oack_bytes [(''blksize'', 8), (''timeoutms'', 1000)])]\<rparr>)"
  by (simp add: eval_request eval_reader)


text \<open>
  C6. The claim: after a non-terminal \<open>Ack(n)\<close> the window holds
  \<open>min(W, blocks_remaining)\<close> blocks and is cut short only by the short block that
  \<open>rsize\<close> limits, a read of zero bytes or an I/O error. In the code a reader with no
  \<open>rsize\<close> and \<open>W = 2\<close> on a file of 100 bytes answers \<open>Ack(0)\<close> with block 1 alone,
  a full block. And a read of zero bytes does not cut the window: with \<open>W = 4\<close> and a
  file of 10 bytes, blocks 3 and 4 go out empty.
\<close>

theorem C6_window_cut_without_rsize:
  "main_reader (a_client 8 0 2) (recvfrom 128 zeros (ack_bytes 0) peer) (reading (a_client 8 0 2) 100)
     = Some ((reading (a_client 8 0 2) 100)\<lparr>sent := [(5, [0, 3, 0, 1] @ replicate 8 0x41)]\<rparr>)
   \<and> main_reader (a_client 8 1000 4) (recvfrom 128 zeros (ack_bytes 0) peer)
       (reading (a_client 8 1000 4) 10)
     = Some ((reading (a_client 8 1000 4) 10)
               \<lparr>sent := [(5, [0, 3, 0, 1] @ replicate 8 0x41), (5, [0, 3, 0, 2] @ replicate 2 0x41),
                         (5, [0, 3, 0, 3]), (5, [0, 3, 0, 4])]\<rparr>)"
  by (simp add: eval_reader)

text \<open>
  C4. The claim: with \<open>rsize > 0\<close> the payloads add up to \<open>rsize\<close> and the last block
  has \<open>rsize mod blksize\<close> bytes, none when \<open>rsize\<close> is a multiple of \<open>blksize\<close>. In the
  code \<open>response_size = 0\<close> also means no limit to \<open>tftp_send_data\<close>: with
  \<open>blksize = 8\<close>, \<open>rsize = 16\<close> and a window of 2 on a file of 100 bytes, blocks 1 and 2
  carry the 16 bytes, the \<open>Ack\<close> of block 2 is answered by block 3 with 8 bytes more,
  and the \<open>Ack\<close> of block 3 ends the transfer: 24 bytes for \<open>rsize = 16\<close>.
\<close>

theorem C4_rsize_multiple_sends_full_block:
  "main_reader (a_client 8 16 2) (recvfrom 128 zeros (ack_bytes 0) peer) (reading (a_client 8 16 2) 100)
     = Some ((reading (a_client 8 16 2) 100)
               \<lparr>sent := [(5, [0, 3, 0, 1] @ replicate 8 0x41), (5, [0, 3, 0, 2] @ replicate 8 0x41)]\<rparr>)
   \<and> main_reader (a_client 8 16 2) (recvfrom 128 zeros (ack_bytes 2) peer)
       ((reading (a_client 8 16 2) 100)
          \<lparr>sent := [(5, [0, 3, 0, 1] @ replicate 8 0x41), (5, [0, 3, 0, 2] @ replicate 8 0x41)]\<rparr>)
     = Some ((reading (a_client 8 16 2) 100)
               \<lparr>sent := [(5, [0, 3, 0, 1] @ replicate 8 0x41), (5, [0, 3, 0, 2] @ replicate 8 0x41),
                         (5, [0, 3, 0, 3] @ replicate 8 0x41)]\<rparr>)
   \<and> main_reader (a_client 8 16 2) (recvfrom 128 zeros (ack_bytes 3) peer)
       ((reading (a_client 8 16 2) 100)
          \<lparr>sent := [(5, [0, 3, 0, 1] @ replicate 8 0x41), (5, [0, 3, 0, 2] @ replicate 8 0x41),
                    (5, [0, 3, 0, 3] @ replicate 8 0x41)]\<rparr>)
     = Some \<lparr>readers = [], writers = [], files = (\<lambda>_. None), socks = {},
             sent = [(5, [0, 3, 0, 1] @ replicate 8 0x41), (5, [0, 3, 0, 2] @ replicate 8 0x41),
                     (5, [0, 3, 0, 3] @ replicate 8 0x41)]\<rparr>"
  by (simp add: eval_reader)

text \<open>
  A partial read that the code serves as intended: options \<open>blksize=8\<close>, \<open>wsize=2\<close>,
  \<open>rsize=20\<close>, \<open>seek=4\<close> on a file of 100 bytes. The \<open>OptionAck\<close> is followed by
  blocks 1 and 2 on \<open>Ack(0)\<close>, by block 3 with 4 bytes on \<open>Ack(2)\<close>, and \<open>Ack(3)\<close>
  ends the transfer. (Each step is run from the state with an empty log.)
\<close>

lemma scenario_partial_read:
  "handle_rrq (an_env 100)
       (request_bytes 1 (str ''f'') (str ''octet'')
          [(str ''blksize'', str ''8''), (str ''wsize'', str ''2''), (str ''rsize'', str ''20''),
           (str ''seek'', str ''4'')]) 44 peer idle
     = Some ((reading ((a_client 8 20 2)\<lparr>seek := 4\<rparr>) 100)
               \<lparr>sent := [(5, oack_bytes [(''blksize'', 8), (''timeoutms'', 1000), (''wsize'', 2),
                                           (''rsize'', 20), (''seek'', 4)])]\<rparr>)"
  "main_reader ((a_client 8 20 2)\<lparr>seek := 4\<rparr>) (recvfrom 128 zeros (ack_bytes 0) peer)
       (reading ((a_client 8 20 2)\<lparr>seek := 4\<rparr>) 100)
     = Some ((reading ((a_client 8 20 2)\<lparr>seek := 4\<rparr>) 100)
               \<lparr>sent := [(5, [0, 3, 0, 1] @ replicate 8 0x41), (5, [0, 3, 0, 2] @ replicate 8 0x41)]\<rparr>)"
  "main_reader ((a_client 8 20 2)\<lparr>seek := 4\<rparr>) (recvfrom 128 zeros (ack_bytes 2) peer)
       (reading ((a_client 8 20 2)\<lparr>seek := 4\<rparr>) 100)
     = Some ((reading ((a_client 8 20 2)\<lparr>seek := 4\<rparr>) 100)
               \<lparr>sent := [(5, [0, 3, 0, 3] @ replicate 4 0x41)]\<rparr>)"
  "main_reader ((a_client 8 20 2)\<lparr>seek := 4\<rparr>) (recvfrom 128 zeros (ack_bytes 3) peer)
       (reading ((a_client 8 20 2)\<lparr>seek := 4\<rparr>) 100)
     = Some \<lparr>readers = [], writers = [], files = (\<lambda>_. None), socks = {}, sent = []\<rparr>"
  by (simp_all add: eval_request eval_reader)

subsection \<open>The writer\<close>

lemma ack_wire:
  "[0, word_of_int OP_ACK, word_of_int (drop_bit 8 (uint (blk :: 16 word) mod 65536)),
    word_of_int (uint blk mod 65536)] = ack_bytes blk"
proof -
  have m: "uint blk mod 65536 = uint blk"
    using uint_bounded [of blk] by simp
  have hi: "(word_of_int (drop_bit 8 (uint blk)) :: byte) = ucast (drop_bit 8 blk)"
    by (rule bit_word_eqI) (auto simp: bit_simps)
  have lo: "(word_of_int (uint blk) :: byte) = ucast blk"
    by (rule bit_word_eqI) (auto simp: bit_simps)
  show ?thesis by (simp add: ack_bytes_def OP_ACK_def m hi lo)
qed

lemma recvfrom_data:
  "len (recvfrom 516 arr (data_bytes blk pl) a) = int (min 516 (4 + length pl))"
  "src (recvfrom 516 arr (data_bytes blk pl) a) = a"
  "buf (recvfrom 516 arr (data_bytes blk pl) a) 0 = 0"
  "buf (recvfrom 516 arr (data_bytes blk pl) a) 1 = 3"
  "buf (recvfrom 516 arr (data_bytes blk pl) a) 2 = ucast (drop_bit 8 blk)"
  "buf (recvfrom 516 arr (data_bytes blk pl) a) 3 = ucast blk"
  by (simp_all add: recvfrom_def data_bytes_def numeral_3_eq_3)

lemma payload_word:
  "(word_of_int (len (recvfrom 516 arr (data_bytes blk pl) a) - 4) :: size_t) = of_nat (min 512 (length pl))"
proof -
  have "int (min 516 (4 + length pl)) - 4 = int (min 512 (length pl))" by auto
  then show ?thesis by (simp only: recvfrom_data) simp
qed

lemma payload_unat: "unat (of_nat (min 512 (length pl)) :: size_t) = min 512 (length pl)"
proof -
  have "min 512 (length pl) < 2 ^ 64" by (simp add: min_def)
  then show ?thesis by (simp only: unat_of_nat) simp
qed

lemma payload_512: "((of_nat (min 512 (length pl)) :: size_t) = 512) = (512 \<le> length pl)"
proof -
  have "((of_nat (min 512 (length pl)) :: size_t) = 512)
        = (unat (of_nat (min 512 (length pl)) :: size_t) = unat (512 :: size_t))"
    by (simp only: word_unat_eq_iff)
  also have "\<dots> = (min 512 (length pl) = 512)" by (simp only: payload_unat) simp
  also have "\<dots> = (512 \<le> length pl)" by auto
  finally show ?thesis .
qed

lemma payload_cells:
  "map (buf (recvfrom 516 arr (data_bytes blk pl) a)) [4 ..< 4 + min 512 (length pl)] = take 512 pl"
proof (rule nth_equalityI)
  show "length (map (buf (recvfrom 516 arr (data_bytes blk pl) a)) [4 ..< 4 + min 512 (length pl)])
        = length (take 512 pl)" by simp
next
  fix i
  assume "i < length (map (buf (recvfrom 516 arr (data_bytes blk pl) a)) [4 ..< 4 + min 512 (length pl)])"
  then have i: "i < 512" "i < length pl" by simp_all
  then show "map (buf (recvfrom 516 arr (data_bytes blk pl) a)) [4 ..< 4 + min 512 (length pl)] ! i
             = take 512 pl ! i"
    by (simp add: recvfrom_def data_bytes_def nth_append)
qed

lemma handle_writer_data:
  "handle_writer c (recvfrom 516 arr (data_bytes blk pl) (sq c)) st =
     (if fst (write_fd st (fd c) (take 512 pl)) < 0
      then Some (- 1, snd (write_fd st (fd c) (take 512 pl)))
      else Some (if 512 \<le> length pl then 1 else 0,
                 snd (send (snd (write_fd st (fd c) (take 512 pl))) (sock c) (ack_bytes blk))))"
proof -
  have op: "push_bit 8 (uint (0 :: byte)) OR uint (3 :: byte) = OP_DATA"
    by (simp add: OP_DATA_def)
  have ln: "\<not> len (recvfrom 516 arr (data_bytes blk pl) (sq c)) < 0"
    by (simp only: recvfrom_data)
  have sm: "\<not> 512 < min 512 (length pl)" by simp
  show ?thesis
    by (simp only: handle_writer_def Let_def payload_word payload_unat payload_512 payload_cells
        recvfrom_data(2-6) be16_decode op ln sm tftp_send_ack_def ack_wire
        if_False if_True simp_thms)
qed


lemma write_fd_ok:
  assumes "files st f = Some fl" and "writable fl"
  shows "write_fd st f dat =
           (int (length dat),
            st\<lparr>files := (files st)(f \<mapsto>
                 fl\<lparr>bytes := take (pos fl) (bytes fl) @ replicate (pos fl - length (bytes fl)) 0
                                 @ dat @ drop (pos fl + length dat) (bytes fl),
                    pos := pos fl + length dat\<rparr>)\<rparr>)"
  using assms by (simp add: write_fd_def)

text \<open>
  C7. A writer whose file is open for writing and whose socket is open gets a \<open>Data\<close>
  packet from its peer with a payload of at most 512 bytes. The payload is written, the
  packet is acknowledged with \<open>Ack\<close> of its block number, and with fewer than 512 bytes
  \<open>handle_writer\<close> returns \<open>0\<close> and \<open>main\<close> reaps the client, while with 512 bytes it
  returns \<open>1\<close> and the client stays. \<open>blksize\<close> of the client is arbitrary: it plays no
  part.
\<close>

theorem C7_writer_ends_below_512:
  assumes "files st (fd c) = Some fl" and "writable fl" and "sock c \<in> socks st"
    and "length pl \<le> 512"
  shows "\<exists>sth st'.
           handle_writer c (recvfrom 516 arr (data_bytes blk pl) (sq c)) st
             = Some (if length pl < 512 then 0 else 1, sth)
         \<and> sent sth = sent st @ [(sock c, ack_bytes blk)]
         \<and> main_writer c (recvfrom 516 arr (data_bytes blk pl) (sq c)) st = Some st'
         \<and> sent st' = sent sth
         \<and> (if length pl < 512
            then writers st' = remove1 c (writers st) \<and> sock c \<notin> socks st' \<and> files st' (fd c) = None
            else st' = sth \<and> writers st' = writers st \<and> sock c \<in> socks st')"
  using assms
  by (cases "length pl < 512")
     (simp_all add: handle_writer_data write_fd_ok [OF assms(1,2)] send_def main_writer_def
        client_close_and_free_def close_fd_def)

theorem C7_writer_ends_below_512_witness:
  "files (writing (a_client 8 0 0)) (fd (a_client 8 0 0))
     = Some \<lparr>bytes = [], pos = 0, readable = False, writable = True\<rparr>
   \<and> sock (a_client 8 0 0) \<in> socks (writing (a_client 8 0 0))
   \<and> length (replicate 8 (0x41 :: byte)) \<le> 512
   \<and> (\<exists>st'. main_writer (a_client 8 0 0)
               (recvfrom 516 zeros (data_bytes 1 (replicate 8 0x41)) peer) (writing (a_client 8 0 0))
             = Some st'
          \<and> sent st' = [(5, ack_bytes 1)] \<and> writers st' = [])"
proof -
  have h1: "files (writing (a_client 8 0 0)) (fd (a_client 8 0 0))
              = Some \<lparr>bytes = [], pos = 0, readable = False, writable = True\<rparr>"
    by (simp add: writing_def a_client_def)
  have h2: "writable \<lparr>bytes = [], pos = 0, readable = False, writable = True\<rparr>" by simp
  have h3: "sock (a_client 8 0 0) \<in> socks (writing (a_client 8 0 0))"
    by (simp add: writing_def a_client_def)
  have h4: "length (replicate 8 (0x41 :: byte)) \<le> 512" by simp
  have sq: "sq (a_client 8 0 0) = peer" and sk: "sock (a_client 8 0 0) = 5"
    by (simp_all add: a_client_def)
  have s0: "sent (writing (a_client 8 0 0)) = []"
    and w0: "writers (writing (a_client 8 0 0)) = [a_client 8 0 0]"
    by (simp_all add: writing_def)
  show ?thesis
    using C7_writer_ends_below_512 [OF h1 h2 h3 h4, of zeros 1] h1 h3
    by (auto simp: sq sk s0 w0)
qed

text \<open>
  C10. Whatever the \<open>blksize\<close> of the writer, a \<open>Data\<close> datagram from its peer (four
  bytes of header and any payload \<open>pl\<close>) puts \<open>take 512 pl\<close> at the file position and
  nothing more; a datagram of more than 516 bytes is cut to a payload of 512 bytes, and
  \<open>handle_writer\<close> returns \<open>1\<close> as for a block that is not the last.
\<close>

theorem C10_writer_payload_at_most_512:
  assumes "files st (fd c) = Some fl" and "writable fl"
  shows "\<exists>ret st'.
           handle_writer c (recvfrom 516 arr (data_bytes blk pl) (sq c)) st = Some (ret, st')
         \<and> files st' (fd c)
             = Some (fl\<lparr>bytes := take (pos fl) (bytes fl) @ replicate (pos fl - length (bytes fl)) 0
                                   @ take 512 pl @ drop (pos fl + length (take 512 pl)) (bytes fl),
                        pos := pos fl + length (take 512 pl)\<rparr>)
         \<and> length (take 512 pl) \<le> 512
         \<and> (if 516 < length (data_bytes blk pl)
            then length (take 512 pl) = 512 \<and> ret = 1
            else take 512 pl = pl)"
proof -
  have n: "length (data_bytes blk pl) = 4 + length pl" by (simp add: data_bytes_def)
  show ?thesis
    by (simp add: handle_writer_data write_fd_ok [OF assms] send_def n)
qed

theorem C10_writer_payload_at_most_512_witness:
  "files (writing (a_client 8 0 0)) (fd (a_client 8 0 0))
     = Some \<lparr>bytes = [], pos = 0, readable = False, writable = True\<rparr>
   \<and> (\<exists>st'. handle_writer (a_client 8 0 0)
               (recvfrom 516 zeros (data_bytes 1 (replicate 600 0x41)) peer) (writing (a_client 8 0 0))
             = Some (1, st')
          \<and> files st' 6 = Some \<lparr>bytes = replicate 512 0x41, pos = 512, readable = False, writable = True\<rparr>)"
proof -
  have h1: "files (writing (a_client 8 0 0)) (fd (a_client 8 0 0))
              = Some \<lparr>bytes = [], pos = 0, readable = False, writable = True\<rparr>"
    by (simp add: writing_def a_client_def)
  have h2: "writable \<lparr>bytes = [], pos = 0, readable = False, writable = True\<rparr>" by simp
  have sq: "sq (a_client 8 0 0) = peer" and fd: "fd (a_client 8 0 0) = 6" by (simp_all add: a_client_def)
  have n: "length (data_bytes 1 (replicate 600 (0x41 :: byte))) = 604" by (simp add: data_bytes_def)
  from C10_writer_payload_at_most_512 [OF h1 h2, of zeros 1 "replicate 600 0x41"]
  show ?thesis using h1 by (auto simp: sq fd n)
qed

text \<open>
  An upload of 612 bytes with the default block size: the block of 512 bytes is written
  and acknowledged and the writer stays; the block of 100 bytes is acknowledged and the
  writer is closed.
\<close>

lemma scenario_upload:
  "main_writer (a_client 512 0 0) (recvfrom 516 zeros (data_bytes 1 (replicate 512 0x41)) peer)
       (writing (a_client 512 0 0))
     = Some ((writing (a_client 512 0 0))
               \<lparr>files := (\<lambda>_. None)(6 \<mapsto> \<lparr>bytes = replicate 512 0x41, pos = 512,
                                              readable = False, writable = True\<rparr>),
                 sent := [(5, ack_bytes 1)]\<rparr>)"
  "main_writer (a_client 512 0 0) (recvfrom 516 zeros (data_bytes 2 (replicate 100 0x42)) peer)
       ((writing (a_client 512 0 0))
               \<lparr>files := (\<lambda>_. None)(6 \<mapsto> \<lparr>bytes = replicate 512 0x41, pos = 512,
                                              readable = False, writable = True\<rparr>),
                 sent := [(5, ack_bytes 1)]\<rparr>)
     = Some \<lparr>readers = [], writers = [],
             files = (\<lambda>_. None),
             socks = {}, sent = [(5, ack_bytes 1), (5, ack_bytes 2)]\<rparr>"
proof -
  have sq: "sq (a_client 512 0 0) = peer" by (simp add: a_client_def)
  note hw = handle_writer_data [of "a_client 512 0 0", unfolded sq]
  show "main_writer (a_client 512 0 0) (recvfrom 516 zeros (data_bytes 1 (replicate 512 0x41)) peer)
       (writing (a_client 512 0 0))
     = Some ((writing (a_client 512 0 0))
               \<lparr>files := (\<lambda>_. None)(6 \<mapsto> \<lparr>bytes = replicate 512 0x41, pos = 512,
                                              readable = False, writable = True\<rparr>),
                 sent := [(5, ack_bytes 1)]\<rparr>)"
    by (simp only: main_writer_def hw)
       (simp add: write_fd_def send_def client_close_and_free_def close_fd_def writing_def a_client_def)
  show "main_writer (a_client 512 0 0) (recvfrom 516 zeros (data_bytes 2 (replicate 100 0x42)) peer)
       ((writing (a_client 512 0 0))
               \<lparr>files := (\<lambda>_. None)(6 \<mapsto> \<lparr>bytes = replicate 512 0x41, pos = 512,
                                              readable = False, writable = True\<rparr>),
                 sent := [(5, ack_bytes 1)]\<rparr>)
     = Some \<lparr>readers = [], writers = [],
             files = (\<lambda>_. None),
             socks = {}, sent = [(5, ack_bytes 1), (5, ack_bytes 2)]\<rparr>"
    by (simp only: main_writer_def hw)
       (simp add: write_fd_def send_def client_close_and_free_def close_fd_def writing_def a_client_def)
qed

subsection \<open>Requests read from the wire\<close>

text \<open>
  \<open>atoi\<close> on some option values: a numeral inside the range of \<open>int\<close> is its number;
  outside, the low 32 bits of the \<open>long\<close> remain.
\<close>

lemma atoi_examples:
  "atoi (str ''8'') = 8"
  "atoi (str '' -12x'') = - 12"
  "atoi (str ''2147483648'') = - 2147483648"
  "atoi (str ''4294967296'') = 0"
  "atoi (str ''4294967304'') = 8"
  "atoi (str ''99999999999999999999'') = - 1"
  by (simp_all add: atoi_def strtol_def LONG_MAX_def LONG_MIN_def str_def isspace_def isdigit_def)

text \<open>
  \<open>atoi\<close> reads the decimal numeral of a number below \<open>2^31\<close> as that number, so an
  option given as such a numeral has that value.
\<close>

lemma digit_byte:
  assumes "d < 10"
  shows "isdigit (0x30 + of_nat d)" and "\<not> isspace (0x30 + of_nat d)"
    and "(0x30 + of_nat d :: byte) \<noteq> 0x2d" and "(0x30 + of_nat d :: byte) \<noteq> 0x2b"
    and "uint (0x30 + of_nat d :: byte) - 48 = int d"
proof -
  from assms have "d = 0 \<or> d = 1 \<or> d = 2 \<or> d = 3 \<or> d = 4 \<or> d = 5 \<or> d = 6 \<or> d = 7 \<or> d = 8 \<or> d = 9"
    by arith
  then show "isdigit (0x30 + of_nat d)" and "\<not> isspace (0x30 + of_nat d)"
    and "(0x30 + of_nat d :: byte) \<noteq> 0x2d" and "(0x30 + of_nat d :: byte) \<noteq> 0x2b"
    and "uint (0x30 + of_nat d :: byte) - 48 = int d"
    by (auto simp: isdigit_def isspace_def)
qed

lemma digits_append:
  "\<forall>b \<in> set xs. isdigit b \<Longrightarrow> digits acc (xs @ ys) = digits (digits acc xs) ys"
  by (induction xs arbitrary: acc) simp_all

lemma dec_nat_facts:
  "(\<forall>b \<in> set (dec_nat n). isdigit b) \<and> digits 0 (dec_nat n) = int n
   \<and> dec_nat n \<noteq> [] \<and> \<not> isspace (hd (dec_nat n))
   \<and> hd (dec_nat n) \<noteq> 0x2d \<and> hd (dec_nat n) \<noteq> 0x2b"
proof (induction n rule: dec_nat.induct)
  case (1 n)
  show ?case
  proof (cases "n < 10")
    case True
    then show ?thesis
      by (subst (1 2 3 4 5 6) dec_nat.simps) (simp add: digit_byte)
  next
    case False
    have m: "n mod 10 < 10" by simp
    have eq: "dec_nat n = dec_nat (n div 10) @ [0x30 + of_nat (n mod 10)]"
      using False by (subst dec_nat.simps) simp
    from "1.IH" [OF False] have ih:
      "\<forall>b \<in> set (dec_nat (n div 10)). isdigit b" "digits 0 (dec_nat (n div 10)) = int (n div 10)"
      "dec_nat (n div 10) \<noteq> []" "\<not> isspace (hd (dec_nat (n div 10)))"
      "hd (dec_nat (n div 10)) \<noteq> 0x2d" "hd (dec_nat (n div 10)) \<noteq> 0x2b"
      by simp_all
    have "digits 0 (dec_nat n) = int (n div 10) * 10 + int (n mod 10)"
      by (simp only: eq digits_append [OF ih(1)] ih(2)) (simp add: digit_byte [OF m])
    also have "\<dots> = int (n div 10 * 10 + n mod 10)"
      by (simp only: of_nat_add of_nat_mult of_nat_numeral)
    also have "\<dots> = int n"
      by (simp only: div_mult_mod_eq)
    finally have v: "digits 0 (dec_nat n) = int n" .
    show ?thesis
      using ih v by (simp add: eq digit_byte [OF m])
  qed
qed

lemma atoi_dec_nat:
  assumes "n < 2 ^ 31"
  shows "atoi (dec_nat n) = int n"
proof -
  obtain c cs where cs: "dec_nat n = c # cs"
    using dec_nat_facts [of n] by (cases "dec_nat n") auto
  have c: "\<not> isspace c" "c \<noteq> 0x2d" "c \<noteq> 0x2b"
    using dec_nat_facts [of n] by (simp_all add: cs)
  have d: "digits 0 (c # cs) = int n"
    using dec_nat_facts [of n] by (simp only: cs)
  have "int n \<le> LONG_MAX" "LONG_MIN \<le> int n"
    using assms by (simp_all add: LONG_MAX_def LONG_MIN_def)
  then have s: "strtol (dec_nat n) = int n"
    using c d by (simp add: strtol_def cs del: digits.simps)
  have "signed_take_bit 31 (int n) = int n"
    using assms by (intro signed_take_bit_int_eq_self) simp_all
  then have "sint (word_of_int (int n) :: 32 word) = int n"
    by (simp only: sint_sbintrunc') simp
  then show ?thesis by (simp add: atoi_def s)
qed

text \<open>
  Applying the options of a request one after the other, as \<open>parse_options\<close> does,
  leaves each local with the value of the last option of its name, or its default.
\<close>

lemma names_distinct:
  "str ''blksize'' \<noteq> str ''timeoutms''" "str ''blksize'' \<noteq> str ''tsize''"
  "str ''blksize'' \<noteq> str ''rsize''" "str ''blksize'' \<noteq> str ''wsize''"
  "str ''blksize'' \<noteq> str ''seek''" "str ''timeoutms'' \<noteq> str ''tsize''"
  "str ''timeoutms'' \<noteq> str ''rsize''" "str ''timeoutms'' \<noteq> str ''wsize''"
  "str ''timeoutms'' \<noteq> str ''seek''" "str ''tsize'' \<noteq> str ''rsize''"
  "str ''tsize'' \<noteq> str ''wsize''" "str ''tsize'' \<noteq> str ''seek''"
  "str ''rsize'' \<noteq> str ''wsize''" "str ''rsize'' \<noteq> str ''seek''"
  "str ''wsize'' \<noteq> str ''seek''"
  by (simp_all add: str_def)

lemma given_snoc:
  "given k (kvs @ [kv]) = (if fst kv = str k then Some (snd kv) else given k kvs)"
  by (cases kv) (simp add: given_def)

lemma requested_Nil: "requested [] = defaults"
  by (simp add: requested_def given_def defaults_def)

lemma requested_snoc:
  "requested (kvs @ [kv]) = set_option (fst kv) (snd kv) (requested kvs)"
  using names_distinct
  by (simp add: requested_def given_snoc set_option_def)

lemma foldl_set_option:
  "foldl (\<lambda>os kv. set_option (fst kv) (snd kv) os) defaults kvs = requested kvs"
  by (induction kvs rule: rev_induct) (simp_all add: requested_Nil requested_snoc)

lemma requested_numeral:
  assumes "n < 2 ^ 31"
  shows "given ''blksize'' kvs = Some (dec_nat n) \<Longrightarrow> o_blksize (requested kvs) = of_nat n"
    and "given ''timeoutms'' kvs = Some (dec_nat n) \<Longrightarrow> o_timeoutms (requested kvs) = of_nat n"
    and "given ''tsize'' kvs = Some (dec_nat n) \<Longrightarrow> o_tsize (requested kvs) = of_nat n"
    and "given ''wsize'' kvs = Some (dec_nat n) \<Longrightarrow> o_wsize (requested kvs) = of_nat n"
    and "given ''rsize'' kvs = Some (dec_nat n) \<Longrightarrow> o_rsize (requested kvs) = of_nat n"
    and "given ''seek'' kvs = Some (dec_nat n) \<Longrightarrow> o_seek (requested kvs) = of_nat n"
  by (simp_all add: requested_def atoi_dec_nat [OF assms])

lemma strlen_at_cstr:
  assumes "0 \<notin> set s"
  shows "strlen_at (pre @ s @ 0 # rest) (length pre) = Some (length s)"
proof -
  have "takeWhile (\<lambda>b. b \<noteq> 0) (s @ 0 # rest) = s"
    using assms by (induction s) auto
  then show ?thesis by (simp add: strlen_at_def)
qed

lemma cstr_at: "take (length s) (drop (length pre) (pre @ s @ rest)) = s"
  by simp

lemma parse_options_bytes:
  assumes "\<forall>kv \<in> set kvs. 0 \<notin> set (fst kv) \<and> 0 \<notin> set (snd kv)"
  shows "parse_options (pre @ option_bytes kvs @ stale) (length pre)
           (length pre + length (option_bytes kvs)) os
         = Some (foldl (\<lambda>os kv. set_option (fst kv) (snd kv) os) os kvs)"
  using assms
proof (induction kvs arbitrary: pre os)
  case Nil
  show ?case by (subst parse_options.simps) (simp add: option_bytes_def)
next
  case (Cons kv kvs)
  obtain k v where kv: "kv = (k, v)" by (cases kv)
  from Cons.prems kv have nk: "0 \<notin> set k" and nv: "0 \<notin> set v"
    and rest: "\<forall>kv \<in> set kvs. 0 \<notin> set (fst kv) \<and> 0 \<notin> set (snd kv)" by auto
  let ?arr = "pre @ option_bytes (kv # kvs) @ stale"
  have ob: "option_bytes (kv # kvs) = k @ 0 # v @ 0 # option_bytes kvs"
    by (simp add: option_bytes_def kv)
  have a1: "?arr = pre @ k @ 0 # (v @ 0 # option_bytes kvs @ stale)" by (simp add: ob)
  have a2: "?arr = (pre @ k @ [0]) @ v @ 0 # (option_bytes kvs @ stale)" by (simp add: ob)
  have a3: "?arr = (pre @ k @ 0 # v @ [0]) @ option_bytes kvs @ stale" by (simp add: ob)
  have s1: "strlen_at ?arr (length pre) = Some (length k)"
    by (subst a1) (rule strlen_at_cstr [OF nk])
  have s2: "strlen_at ?arr (length pre + length k + 1) = Some (length v)"
    using strlen_at_cstr [OF nv, of "pre @ k @ [0]" "option_bytes kvs @ stale"]
    by (subst a2) simp
  have t1: "take (length k) (drop (length pre) ?arr) = k" by (simp add: ob)
  have t2: "take (length v) (drop (length pre + length k + 1) ?arr) = v"
    using cstr_at [of v "pre @ k @ [0]" "0 # option_bytes kvs @ stale"] by (simp add: ob)
  have lt: "length pre < length pre + length (option_bytes (kv # kvs))" by (simp add: ob)
  have ih: "parse_options ?arr (length pre + length k + 1 + length v + 1)
              (length pre + length (option_bytes (kv # kvs))) (set_option k v os)
            = Some (foldl (\<lambda>os kv. set_option (fst kv) (snd kv) os) (set_option k v os) kvs)"
    using Cons.IH [OF rest, of "pre @ k @ 0 # v @ [0]" "set_option k v os"]
    by (simp add: ob add.assoc)
  have fk: "fst kv = k" and sk: "snd kv = v" by (simp_all add: kv)
  show ?case
    by (subst parse_options.simps) (simp only: lt s1 s2 t1 t2 ih if_True option.case foldl_Cons fk sk)
qed


lemma option_bytes_empty: "(option_bytes kvs = []) = (kvs = [])"
  by (cases kvs) (simp_all add: option_bytes_def)

lemma request_head:
  assumes "0 \<notin> set fn" and "0 \<notin> set mode"
    and "\<forall>kv \<in> set kvs. 0 \<notin> set (fst kv) \<and> 0 \<notin> set (snd kv)"
  shows "strlen_at (request_bytes opc fn mode kvs @ stale) 2 = Some (length fn)"
    and "strlen_at (request_bytes opc fn mode kvs @ stale) (2 + length fn + 1) = Some (length mode)"
    and "take (length fn) (drop 2 (request_bytes opc fn mode kvs @ stale)) = fn"
    and "take (length mode) (drop (2 + length fn + 1) (request_bytes opc fn mode kvs @ stale)) = mode"
    and "(2 + length fn + 1 + length mode + 1 < length (request_bytes opc fn mode kvs)) = (kvs \<noteq> [])"
    and "parse_options (request_bytes opc fn mode kvs @ stale) (2 + length fn + 1 + length mode + 1)
           (length (request_bytes opc fn mode kvs)) defaults = Some (requested kvs)"
proof -
  let ?arr = "request_bytes opc fn mode kvs @ stale"
  have a1: "?arr = [0, opc] @ fn @ 0 # (mode @ 0 # option_bytes kvs @ stale)"
    by (simp add: request_bytes_def)
  have a2: "?arr = ([0, opc] @ fn @ [0]) @ mode @ 0 # (option_bytes kvs @ stale)"
    by (simp add: request_bytes_def)
  have a3: "?arr = ([0, opc] @ fn @ 0 # mode @ [0]) @ option_bytes kvs @ stale"
    by (simp add: request_bytes_def)
  show "strlen_at ?arr 2 = Some (length fn)"
    using strlen_at_cstr [OF assms(1), of "[0, opc]" "mode @ 0 # option_bytes kvs @ stale"]
    by (simp add: a1 numeral_2_eq_2)
  show "strlen_at ?arr (2 + length fn + 1) = Some (length mode)"
    using strlen_at_cstr [OF assms(2), of "[0, opc] @ fn @ [0]" "option_bytes kvs @ stale"]
    by (simp add: a2 numeral_2_eq_2)
  show "take (length fn) (drop 2 ?arr) = fn" by (simp add: request_bytes_def)
  show "take (length mode) (drop (2 + length fn + 1) ?arr) = mode" by (simp add: request_bytes_def)
  show "(2 + length fn + 1 + length mode + 1 < length (request_bytes opc fn mode kvs)) = (kvs \<noteq> [])"
    by (simp add: request_bytes_def option_bytes_empty)
  show "parse_options ?arr (2 + length fn + 1 + length mode + 1)
           (length (request_bytes opc fn mode kvs)) defaults = Some (requested kvs)"
    using parse_options_bytes [OF assms(3), of "[0, opc] @ fn @ 0 # mode @ [0]" stale defaults]
    by (simp add: a3 foldl_set_option request_bytes_def add.assoc numeral_2_eq_2)
qed

lemma error_wire:
  "tftp_send_error st s 1 msg = send st s ([0, 5, 0, 1] @ msg @ [0])"
  by (simp add: tftp_send_error_def OP_ERROR_def)

text \<open>
  C8. A request in octet mode (file name, mode and options free of NUL, so that every
  string ends inside the datagram) whose file cannot be opened. For an RRQ, with the
  new socket created and connected, \<open>Error(1, "file not found")\<close> goes out on that
  socket and no client is registered: of the state only the socket and the packet are
  new. For a WRQ the open comes first and the state is left as it was: no socket, no
  packet, no client.
\<close>

theorem C8_open_failure:
  assumes "0 \<notin> set fn" and "0 \<notin> set mode"
    and "\<forall>kv \<in> set kvs. 0 \<notin> set (fst kv) \<and> 0 \<notin> set (snd kv)"
    and "strcasecmp mode (str ''octet'') = 0"
  shows "(0 \<le> qrtr_open e \<and> 0 \<le> connect e \<and> translate_open e fn O_RDONLY < 0 \<longrightarrow>
            handle_rrq e (request_bytes 1 fn mode kvs @ stale) (length (request_bytes 1 fn mode kvs)) from st
              = Some (st\<lparr>socks := insert (qrtr_open e) (socks st),
                         sent := sent st @ [(qrtr_open e, [0, 5, 0, 1] @ str ''file not found'' @ [0])]\<rparr>))
       \<and> (translate_open e fn (O_WRONLY OR O_CREAT) < 0 \<longrightarrow>
            handle_wrq e (request_bytes 2 fn mode kvs @ stale) (length (request_bytes 2 fn mode kvs)) from st
              = Some st)"
proof -
  note h = request_head [OF assms(1-3)]
  have kv: "(if kvs \<noteq> [] then Some (requested kvs) else Some defaults) = Some (requested kvs)"
    by (simp add: requested_Nil)
  have r: "0 \<le> qrtr_open e \<and> 0 \<le> connect e \<and> translate_open e fn O_RDONLY < 0 \<longrightarrow>
            handle_rrq e (request_bytes 1 fn mode kvs @ stale) (length (request_bytes 1 fn mode kvs)) from st
              = Some (st\<lparr>socks := insert (qrtr_open e) (socks st),
                         sent := sent st @ [(qrtr_open e, [0, 5, 0, 1] @ str ''file not found'' @ [0])]\<rparr>)"
    by (simp only: handle_rrq_def h option.case Let_def assms(4) kv error_wire)
       (simp add: send_def)
  have w: "translate_open e fn (O_WRONLY OR O_CREAT) < 0 \<longrightarrow>
            handle_wrq e (request_bytes 2 fn mode kvs @ stale) (length (request_bytes 2 fn mode kvs)) from st
              = Some st"
    by (simp only: handle_wrq_def h option.case Let_def assms(4) kv) simp
  from r w show ?thesis by (rule conjI)
qed


lemmas eval_octet = strcasecmp_def str_def tolower_def

theorem C8_open_failure_witness:
  "0 \<notin> set (str ''g'') \<and> 0 \<notin> set (str ''OCTET'')
   \<and> strcasecmp (str ''OCTET'') (str ''octet'') = 0
   \<and> handle_rrq (an_env 100) (request_bytes 1 (str ''g'') (str ''OCTET'') []) 10 peer idle
       = Some (idle\<lparr>socks := {5}, sent := [(5, [0, 5, 0, 1] @ str ''file not found'' @ [0])]\<rparr>)
   \<and> handle_wrq (an_env 100) (request_bytes 2 (str ''g'') (str ''OCTET'') []) 10 peer idle
       = Some idle"
proof -
  have h1: "0 \<notin> set (str ''g'')" and h2: "0 \<notin> set (str ''OCTET'')" by (simp_all add: str_def)
  have h3: "\<forall>kv \<in> set ([] :: (byte list \<times> byte list) list). 0 \<notin> set (fst kv) \<and> 0 \<notin> set (snd kv)"
    by simp
  have h4: "strcasecmp (str ''OCTET'') (str ''octet'') = 0" by (simp add: eval_octet)
  have n1: "length (request_bytes 1 (str ''g'') (str ''OCTET'') []) = 10"
    and n2: "length (request_bytes 2 (str ''g'') (str ''OCTET'') []) = 10"
    by (simp_all add: request_bytes_def option_bytes_def str_def)
  have e: "0 \<le> qrtr_open (an_env 100)" "0 \<le> connect (an_env 100)"
    "translate_open (an_env 100) (str ''g'') O_RDONLY < 0"
    "translate_open (an_env 100) (str ''g'') (O_WRONLY OR O_CREAT) < 0"
    "qrtr_open (an_env 100) = 5"
    by (simp_all add: an_env_def str_def)
  from C8_open_failure [OF h1 h2 h3 h4, of "an_env 100" "[]" peer idle]
  show ?thesis using h1 h2 h4 e by (simp add: n1 n2 idle_def)
qed

subsection \<open>The OptionAck\<close>

lemma echoed_names:
  "fst ` set (echoed os ts) \<subseteq> {''blksize'', ''timeoutms'', ''tsize'', ''wsize'', ''rsize'', ''seek''}"
  "''blksize'' \<in> fst ` set (echoed os ts)"
  "''timeoutms'' \<in> fst ` set (echoed os ts)"
  "(''tsize'' \<in> fst ` set (echoed os ts)) = (ts \<noteq> 0 \<and> ts \<noteq> - 1)"
  "(''wsize'' \<in> fst ` set (echoed os ts)) = (o_wsize os \<noteq> 0)"
  "(''rsize'' \<in> fst ` set (echoed os ts)) = (o_rsize os \<noteq> 0)"
  "(''seek'' \<in> fst ` set (echoed os ts)) = (o_seek os \<noteq> 0)"
  by (auto simp: echoed_def)

lemma oack_fields_echoed:
  "oack_fields (Some (o_blksize os)) (if ts \<noteq> 0 then Some ts else None)
     (if o_wsize os \<noteq> 0 then Some (o_wsize os) else None) (Some (o_timeoutms os))
     (if o_rsize os \<noteq> 0 then Some (o_rsize os) else None)
     (if o_seek os \<noteq> 0 then Some (o_seek os) else None) = echoed os ts"
  by (simp add: oack_fields_def echoed_def)

text \<open>
  C9, as the claim states it, fails in both directions. A request whose only option is
  \<open>wsize=2\<close> is answered by an \<open>OptionAck\<close> that holds \<open>blksize\<close> and \<open>timeoutms\<close>,
  which the request did not name; a request whose only option is \<open>seek=0\<close> is answered
  by one that does not hold \<open>seek\<close>.
\<close>

theorem C9_oack_counterexample:
  "str ''blksize'' \<notin> fst ` set [(str ''wsize'', str ''2'')]
   \<and> handle_rrq (an_env 100)
       (request_bytes 1 (str ''f'') (str ''octet'') [(str ''wsize'', str ''2'')]) 18 peer idle
     = Some ((reading (a_client 512 0 2) 100)
               \<lparr>sent := [(5, oack_bytes [(''blksize'', 512), (''timeoutms'', 1000), (''wsize'', 2)])]\<rparr>)
   \<and> str ''seek'' \<in> fst ` set [(str ''seek'', str ''0'')]
   \<and> handle_rrq (an_env 100)
       (request_bytes 1 (str ''f'') (str ''octet'') [(str ''seek'', str ''0'')]) 17 peer idle
     = Some ((reading (a_client 512 0 0) 100)
               \<lparr>sent := [(5, oack_bytes [(''blksize'', 512), (''timeoutms'', 1000)])]\<rparr>)"
  by (simp add: eval_request eval_reader)

text \<open>
  C9, amended. An accepted RRQ or WRQ in octet mode with at least one option is answered
  on the new socket by an \<open>OptionAck\<close> that lists, in this order: \<open>blksize\<close> and
  \<open>timeoutms\<close> always; \<open>tsize\<close> when its value is neither 0 nor -1; \<open>wsize\<close>, \<open>rsize\<close>
  and \<open>seek\<close> exactly when their value is not zero. The value of an option is what
  \<open>atoi\<close> (a 32-bit \<open>int\<close>) makes of the last occurrence of its name in the request,
  or the default (512 for \<open>blksize\<close>, 1000 for \<open>timeoutms\<close>, -1 for \<open>tsize\<close>, 0 for
  the others) when the request does not name it; for an RRQ whose \<open>tsize\<close> is not -1
  the size of the file takes its place. No other name is listed.
\<close>

theorem C9_oack_fields:
  assumes "0 \<notin> set fn" and "0 \<notin> set mode"
    and "\<forall>kv \<in> set kvs. 0 \<notin> set (fst kv) \<and> 0 \<notin> set (snd kv)"
    and "strcasecmp mode (str ''octet'') = 0"
    and "kvs \<noteq> []"
    and "0 \<le> qrtr_open e" and "0 \<le> connect e"
  shows "(0 \<le> translate_open e fn O_RDONLY \<longrightarrow>
           (\<exists>st'. handle_rrq e (request_bytes 1 fn mode kvs @ stale)
                     (length (request_bytes 1 fn mode kvs)) from st = Some st'
                 \<and> sent st' = sent st @
                      [(qrtr_open e,
                        oack_bytes (echoed (requested kvs)
                          (if o_tsize (requested kvs) \<noteq> - 1
                           then of_nat (length (opened_bytes e fn)) else - 1)))]))
       \<and> (0 \<le> translate_open e fn (O_WRONLY OR O_CREAT) \<longrightarrow>
           (\<exists>st'. handle_wrq e (request_bytes 2 fn mode kvs @ stale)
                     (length (request_bytes 2 fn mode kvs)) from st = Some st'
                 \<and> sent st' = sent st @
                      [(qrtr_open e, oack_bytes (echoed (requested kvs) (o_tsize (requested kvs))))]))
       \<and> (\<forall>ts. fst ` set (echoed (requested kvs) ts)
                  \<subseteq> {''blksize'', ''timeoutms'', ''tsize'', ''wsize'', ''rsize'', ''seek''}
               \<and> ''blksize'' \<in> fst ` set (echoed (requested kvs) ts)
               \<and> ''timeoutms'' \<in> fst ` set (echoed (requested kvs) ts)
               \<and> (''tsize'' \<in> fst ` set (echoed (requested kvs) ts)) = (ts \<noteq> 0 \<and> ts \<noteq> - 1)
               \<and> (''wsize'' \<in> fst ` set (echoed (requested kvs) ts)) = (o_wsize (requested kvs) \<noteq> 0)
               \<and> (''rsize'' \<in> fst ` set (echoed (requested kvs) ts)) = (o_rsize (requested kvs) \<noteq> 0)
               \<and> (''seek'' \<in> fst ` set (echoed (requested kvs) ts)) = (o_seek (requested kvs) \<noteq> 0))"
proof -
  note h = request_head [OF assms(1-3)]
  have kv: "(if kvs \<noteq> [] then Some (requested kvs) else Some defaults) = Some (requested kvs)"
    by (simp add: requested_Nil)
  have ts: "(if o_tsize (requested kvs) \<noteq> - 1 then of_nat (length (opened_bytes e fn))
             else o_tsize (requested kvs))
            = (if o_tsize (requested kvs) \<noteq> - 1 then of_nat (length (opened_bytes e fn)) else - 1)"
    by simp
  have r: "0 \<le> translate_open e fn O_RDONLY \<longrightarrow>
           (\<exists>st'. handle_rrq e (request_bytes 1 fn mode kvs @ stale)
                     (length (request_bytes 1 fn mode kvs)) from st = Some st'
                 \<and> sent st' = sent st @
                      [(qrtr_open e,
                        oack_bytes (echoed (requested kvs)
                          (if o_tsize (requested kvs) \<noteq> - 1
                           then of_nat (length (opened_bytes e fn)) else - 1)))])"
    using assms(5-7)
    by (simp only: handle_rrq_def h option.case Let_def assms(4) kv ts tftp_send_oack_def
          tftp_client.simps oack_fields_echoed)
       (simp add: send_def)
  have w: "0 \<le> translate_open e fn (O_WRONLY OR O_CREAT) \<longrightarrow>
           (\<exists>st'. handle_wrq e (request_bytes 2 fn mode kvs @ stale)
                     (length (request_bytes 2 fn mode kvs)) from st = Some st'
                 \<and> sent st' = sent st @
                      [(qrtr_open e, oack_bytes (echoed (requested kvs) (o_tsize (requested kvs))))])"
    using assms(5-7)
    by (simp only: handle_wrq_def h option.case Let_def assms(4) kv tftp_send_oack_def
          tftp_client.simps oack_fields_echoed)
       (simp add: send_def)
  have n: "\<forall>ts. fst ` set (echoed (requested kvs) ts)
                  \<subseteq> {''blksize'', ''timeoutms'', ''tsize'', ''wsize'', ''rsize'', ''seek''}
               \<and> ''blksize'' \<in> fst ` set (echoed (requested kvs) ts)
               \<and> ''timeoutms'' \<in> fst ` set (echoed (requested kvs) ts)
               \<and> (''tsize'' \<in> fst ` set (echoed (requested kvs) ts)) = (ts \<noteq> 0 \<and> ts \<noteq> - 1)
               \<and> (''wsize'' \<in> fst ` set (echoed (requested kvs) ts)) = (o_wsize (requested kvs) \<noteq> 0)
               \<and> (''rsize'' \<in> fst ` set (echoed (requested kvs) ts)) = (o_rsize (requested kvs) \<noteq> 0)
               \<and> (''seek'' \<in> fst ` set (echoed (requested kvs) ts)) = (o_seek (requested kvs) \<noteq> 0)"
    by (simp only: echoed_names simp_thms)
  from r w n show ?thesis by (intro conjI)
qed

theorem C9_oack_fields_witness:
  "0 \<notin> set (str ''f'') \<and> 0 \<notin> set (str ''octet'')
   \<and> strcasecmp (str ''octet'') (str ''octet'') = 0
   \<and> (\<exists>st'. handle_rrq (an_env 100)
               (request_bytes 1 (str ''f'') (str ''octet'')
                  [(str ''blksize'', str ''1024''), (str ''timeoutms'', str ''50''),
                   (str ''tsize'', str ''0''), (str ''wsize'', str ''4294967296''),
                   (str ''rsize'', str ''20''), (str ''seek'', str ''4''),
                   (str ''blksize'', str ''8''), (str ''junk'', str ''1'')]) 94 peer idle = Some st'
          \<and> sent st' = [(5, oack_bytes [(''blksize'', 8), (''timeoutms'', 50), (''tsize'', 100),
                                          (''rsize'', 20), (''seek'', 4)])])
   \<and> (\<exists>st'. handle_wrq (an_env 100)
               (request_bytes 2 (str ''f'') (str ''octet'')
                  [(str ''blksize'', str ''1024''), (str ''timeoutms'', str ''50''),
                   (str ''tsize'', str ''0''), (str ''wsize'', str ''4294967296''),
                   (str ''rsize'', str ''20''), (str ''seek'', str ''4''),
                   (str ''blksize'', str ''8''), (str ''junk'', str ''1'')]) 94 peer idle = Some st'
          \<and> sent st' = [(5, oack_bytes [(''blksize'', 8), (''timeoutms'', 50),
                                          (''rsize'', 20), (''seek'', 4)])])"
proof -
  let ?kvs = "[(str ''blksize'', str ''1024''), (str ''timeoutms'', str ''50''),
               (str ''tsize'', str ''0''), (str ''wsize'', str ''4294967296''),
               (str ''rsize'', str ''20''), (str ''seek'', str ''4''),
               (str ''blksize'', str ''8''), (str ''junk'', str ''1'')]"
  have h1: "0 \<notin> set (str ''f'')" and h2: "0 \<notin> set (str ''octet'')" by (simp_all add: str_def)
  have h3: "\<forall>kv \<in> set ?kvs. 0 \<notin> set (fst kv) \<and> 0 \<notin> set (snd kv)"
    by (simp add: str_def)
  have h4: "strcasecmp (str ''octet'') (str ''octet'') = 0" by (simp add: strcasecmp_def)
  have h5: "?kvs \<noteq> []" by simp
  have n1: "length (request_bytes 1 (str ''f'') (str ''octet'') ?kvs) = 94"
    and n2: "length (request_bytes 2 (str ''f'') (str ''octet'') ?kvs) = 94"
    by (simp_all add: request_bytes_def option_bytes_def str_def)
  have e: "0 \<le> qrtr_open (an_env 100)" "0 \<le> connect (an_env 100)"
    "0 \<le> translate_open (an_env 100) (str ''f'') O_RDONLY"
    "0 \<le> translate_open (an_env 100) (str ''f'') (O_WRONLY OR O_CREAT)"
    and q: "qrtr_open (an_env 100) = 5"
    and ob: "opened_bytes (an_env 100) (str ''f'') = replicate 100 0x41"
    by (simp_all add: an_env_def)
  have rq: "requested ?kvs
            = \<lparr>o_blksize = 8, o_tsize = 0, o_wsize = 0, o_timeoutms = 50, o_rsize = 20, o_seek = 4\<rparr>"
    by (simp add: requested_def given_def str_def atoi_def strtol_def LONG_MAX_def LONG_MIN_def
        isspace_def isdigit_def)
  have f1: "echoed \<lparr>o_blksize = 8, o_tsize = 0, o_wsize = 0, o_timeoutms = 50, o_rsize = 20, o_seek = 4\<rparr> 100
            = [(''blksize'', 8), (''timeoutms'', 50), (''tsize'', 100), (''rsize'', 20), (''seek'', 4)]"
    and f2: "echoed \<lparr>o_blksize = 8, o_tsize = 0, o_wsize = 0, o_timeoutms = 50, o_rsize = 20, o_seek = 4\<rparr> 0
            = [(''blksize'', 8), (''timeoutms'', 50), (''rsize'', 20), (''seek'', 4)]"
    by (simp_all add: echoed_def)
  from C9_oack_fields [OF h1 h2 h3 h4 h5 e(1) e(2), of "[]" peer idle]
  show ?thesis using h1 h2 h4 e(3) e(4)
    by (simp add: n1 n2 q ob rq f1 f2 idle_def)
qed

end
